theory Spec2Isabelle
  imports Main "HOL-Library.Word" "HOL-Library.Product_Lexorder"
begin

section \<open>Values shared by the request handlers of app.py\<close>

text \<open>
  Python text is modelled by \<open>string\<close>, each \<open>char\<close> standing for the code point of
  the same number (0 to 255, Latin-1); text with other code points is outside the model.
  The character classes below (\<open>is_digit\<close>, \<open>is_space\<close>, \<open>is_alnum\<close>, \<open>lower_char\<close>) are
  Python's \<open>str.isdigit\<close>, the characters \<open>str.strip()\<close> removes, the characters
  \<open>[^\W_]\<close> matches and \<open>str.lower\<close> on that range.
\<close>

subsection \<open>bson.ObjectId\<close>

text \<open>
  An ObjectId is twelve bytes, here a 96-bit word. \<open>str(oid)\<close> is its rendering as 24
  lower-case hexadecimal digits; the constructor \<open>ObjectId(s)\<close> accepts a string of
  24 hexadecimal digits (either case) and raises \<open>InvalidId\<close> on every other string,
  which the model returns as \<open>None\<close>.
\<close>

type_synonym objid = "96 word"

definition is_hex :: "char \<Rightarrow> bool" where
  "is_hex c = (let n = (of_char c :: nat) in
     (48 \<le> n \<and> n \<le> 57) \<or> (97 \<le> n \<and> n \<le> 102) \<or> (65 \<le> n \<and> n \<le> 70))"

definition hex_val :: "char \<Rightarrow> nat" where
  "hex_val c = (let n = (of_char c :: nat) in
     if n \<le> 57 then n - 48 else if 97 \<le> n then n - 87 else n - 55)"

definition hex_digit :: "nat \<Rightarrow> char" where
  "hex_digit n = (if n < 10 then char_of (48 + n) else char_of (87 + n))"

fun hex_of_nat :: "nat \<Rightarrow> nat \<Rightarrow> string" where
  "hex_of_nat 0 n = []"
| "hex_of_nat (Suc k) n = hex_of_nat k (n div 16) @ [hex_digit (n mod 16)]"

definition nat_of_hex :: "string \<Rightarrow> nat" where
  "nat_of_hex s = foldl (\<lambda>a c. 16 * a + hex_val c) 0 s"

definition ObjectId :: "string \<Rightarrow> objid option" where
  "ObjectId s = (if length s = 24 \<and> list_all is_hex s
                 then Some (word_of_nat (nat_of_hex s)) else None)"

definition oid_str :: "objid \<Rightarrow> string" where
  "oid_str w = hex_of_nat 24 (unat w)"

text \<open>
  A document's \<open>_id\<close>: the code supports both an ObjectId and a plain string
  ("Support both ObjectId and string"). \<open>id_str\<close> is Python's \<open>str(doc["_id"])\<close>.
\<close>

datatype doc_id = OidId objid | StrId string

fun id_str :: "doc_id \<Rightarrow> string" where
  "id_str (OidId w) = oid_str w"
| "id_str (StrId s) = s"

subsection \<open>Collections of the document store\<close>

text \<open>
  A collection is the list of its documents in natural order. The operations are those
  of pymongo that the handlers call, over a filter given as a predicate.
\<close>

definition find_one :: "('a \<Rightarrow> bool) \<Rightarrow> 'a list \<Rightarrow> 'a option" where
  "find_one P xs = List.find P xs"

definition find_many :: "('a \<Rightarrow> bool) \<Rightarrow> 'a list \<Rightarrow> 'a list" where
  "find_many P xs = filter P xs"

fun delete_one :: "('a \<Rightarrow> bool) \<Rightarrow> 'a list \<Rightarrow> 'a list" where
  "delete_one P [] = []"
| "delete_one P (x # xs) = (if P x then xs else x # delete_one P xs)"

definition delete_many :: "('a \<Rightarrow> bool) \<Rightarrow> 'a list \<Rightarrow> 'a list" where
  "delete_many P xs = filter (\<lambda>x. \<not> P x) xs"

text \<open>\<open>update_one\<close> changes the first matching document and reports \<open>matched_count\<close>.\<close>

fun update_one :: "('a \<Rightarrow> bool) \<Rightarrow> ('a \<Rightarrow> 'a) \<Rightarrow> 'a list \<Rightarrow> nat \<times> 'a list" where
  "update_one P f [] = (0, [])"
| "update_one P f (x # xs) =
     (if P x then (1, f x # xs)
      else (case update_one P f xs of (n, ys) \<Rightarrow> (n, x # ys)))"

text \<open>
  A naive \<open>datetime\<close> as Python holds it: its calendar fields. Comparison is
  lexicographic on the fields, as \<open>datetime.__lt__\<close> is.
\<close>

record datetime =
  year :: nat
  month :: nat
  day :: nat
  hour :: nat
  minute :: nat
  second :: nat
  microsecond :: nat

definition dt_key :: "datetime \<Rightarrow> nat \<times> nat \<times> nat \<times> nat \<times> nat \<times> nat \<times> nat" where
  "dt_key t = (year t, month t, day t, hour t, minute t, second t, microsecond t)"

fun lex7 :: "nat \<times> nat \<times> nat \<times> nat \<times> nat \<times> nat \<times> nat
           \<Rightarrow> nat \<times> nat \<times> nat \<times> nat \<times> nat \<times> nat \<times> nat \<Rightarrow> bool" where
  "lex7 (a1, a2, a3, a4, a5, a6, a7) (b1, b2, b3, b4, b5, b6, b7) =
     (a1 < b1 \<or> (a1 = b1 \<and> (a2 < b2 \<or> (a2 = b2 \<and> (a3 < b3 \<or> (a3 = b3 \<and>
      (a4 < b4 \<or> (a4 = b4 \<and> (a5 < b5 \<or> (a5 = b5 \<and> (a6 < b6 \<or> (a6 = b6 \<and> a7 < b7))))))))))))"

definition dt_less :: "datetime \<Rightarrow> datetime \<Rightarrow> bool" where
  "dt_less s t = lex7 (dt_key s) (dt_key t)"

definition dt_le :: "datetime \<Rightarrow> datetime \<Rightarrow> bool" where
  "dt_le s t = (dt_less s t \<or> dt_key s = dt_key t)"

text \<open>
  The value of a field that the code does not type: \<open>None\<close> (also what \<open>.get\<close> reads
  from an absent key), text, a \<open>datetime\<close>, or any other value, of which only its
  truthiness matters to the handlers modelled here. \<open>py_truthy\<close> is Python's truth test.
\<close>

datatype pyval = PNone | PStr string | PDateTime datetime | POther bool

fun py_truthy :: "pyval \<Rightarrow> bool" where
  "py_truthy PNone = False"
| "py_truthy (PStr s) = (s \<noteq> [])"
| "py_truthy (PDateTime t) = True"
| "py_truthy (POther b) = b"

text \<open>
  The exceptions that escape a handler; the global error handler answers them with 500.
\<close>

datatype py_error = ValueError | RuntimeError | TypeError

text \<open>The documents, with the fields the modelled handlers read or write.\<close>

record client =
  c_id :: doc_id
  c_email :: "string option"
  c_phone :: "string option"
  c_number :: "string option"

record client_app =
  ca_id :: doc_id
  ca_client_id :: "string option"
  ca_app_name :: "string option"
  ca_slug :: "string option"

record form_field =
  label :: string
  name :: string
  ftype :: string
  required :: bool

record form_builder =
  fb_client_id :: "string option"
  fb_app_id :: "string option"
  fb_app_name :: "string option"
  fb_slug :: "string option"
  fb_fields :: "form_field list"
  fb_api_key :: "string option"

record call_request =
  cr_id :: doc_id
  cr_client_id :: "string option"
  cr_app_name :: "string option"
  cr_name :: "string option"
  cr_user_name :: "string option"
  cr_phone :: "string option"
  cr_status :: "string option"
  cr_call_time :: pyval
  cr_call_initiated :: "bool option"
  cr_call_initiated_at :: "datetime option"
  cr_twilio_sid :: "string option"
  cr_call_error :: "string option"
  cr_created_at :: "datetime option"

record llm_setting =
  ls_client_id :: "string option"
  ls_app_name :: "string option"

record api_key_doc =
  ak_client_id :: "string option"
  ak_api_key :: "string option"
  ak_scope :: "string option"
  ak_app_name :: "string option"

record db =
  clients :: "client list"
  client_apps :: "client_app list"
  form_builders :: "form_builder list"
  call_requests :: "call_request list"
  llm_settings :: "llm_setting list"
  api_keys :: "api_key_doc list"

text \<open>What a handler returns to Flask.\<close>

datatype response =
  Redirect string
| Json nat "(string \<times> string) list"
| Text nat string

section \<open>Admin: delete a client\<close>

text \<open>
  \<open>delete_client\<close> (route \<open>/admin/delete-client/<client_id>\<close>). The whole body is in one
  \<open>try\<close>: when \<open>ObjectId(client_id)\<close> raises, no statement after it runs and the
  \<open>except\<close> branch redirects. The cascade is to \<open>client_apps\<close>, \<open>form_builders\<close> and
  \<open>call_requests\<close>; \<open>llm_settings\<close> is not touched.
\<close>

definition delete_client :: "db \<Rightarrow> string \<Rightarrow> response \<times> db" where
  "delete_client d client_id =
     (case ObjectId client_id of
        None \<Rightarrow> (Redirect ''/manage-clients'', d)
      | Some oid \<Rightarrow>
          (Redirect ''/manage-clients'',
           d\<lparr>clients := delete_one (\<lambda>c. c_id c = OidId oid) (clients d),
             client_apps := delete_many (\<lambda>a. ca_client_id a = Some client_id) (client_apps d),
             form_builders := delete_many (\<lambda>f. fb_client_id f = Some client_id) (form_builders d),
             call_requests := delete_many (\<lambda>r. cr_client_id r = Some client_id) (call_requests d)\<rparr>))"

text \<open>The documents of each collection that carry a given \<open>client_id\<close>.\<close>

definition apps_of :: "string \<Rightarrow> db \<Rightarrow> client_app list" where
  "apps_of cid d = filter (\<lambda>a. ca_client_id a = Some cid) (client_apps d)"

definition forms_of :: "string \<Rightarrow> db \<Rightarrow> form_builder list" where
  "forms_of cid d = filter (\<lambda>f. fb_client_id f = Some cid) (form_builders d)"

definition requests_of :: "string \<Rightarrow> db \<Rightarrow> call_request list" where
  "requests_of cid d = filter (\<lambda>r. cr_client_id r = Some cid) (call_requests d)"

definition llm_of :: "string \<Rightarrow> db \<Rightarrow> llm_setting list" where
  "llm_of cid d = filter (\<lambda>s. ls_client_id s = Some cid) (llm_settings d)"

definition empty_db :: db where
  "empty_db = \<lparr>clients = [], client_apps = [], form_builders = [], call_requests = [],
               llm_settings = [], api_keys = []\<rparr>"

definition acme_id :: string where
  "acme_id = ''65f0a1b2c3d4e5f601234567''"

definition acme_db :: db where
  "acme_db = empty_db\<lparr>
     client_apps := [\<lparr>ca_id = StrId ''a1'', ca_client_id = Some acme_id,
                      ca_app_name = Some ''Hotel'', ca_slug = Some ''hotel''\<rparr>],
     form_builders := [\<lparr>fb_client_id = Some acme_id, fb_app_id = Some ''a1'',
                        fb_app_name = Some ''Hotel'', fb_slug = Some ''hotel'',
                        fb_fields = [], fb_api_key = Some ''k1''\<rparr>],
     llm_settings := [\<lparr>ls_client_id = Some acme_id, ls_app_name = Some ''Hotel''\<rparr>]\<rparr>"

section \<open>API read access: GET /api/calls\<close>

text \<open>
  \<open>.sort("created_at", -1)\<close>: descending by \<open>created_at\<close>, a document without the field
  after every document that has one.
\<close>

definition created_ge :: "call_request \<Rightarrow> call_request \<Rightarrow> bool" where
  "created_ge a b =
     (case cr_created_at b of
        None \<Rightarrow> True
      | Some t \<Rightarrow> (case cr_created_at a of None \<Rightarrow> False | Some s \<Rightarrow> dt_le t s))"

fun insort_desc :: "call_request \<Rightarrow> call_request list \<Rightarrow> call_request list" where
  "insort_desc x [] = [x]"
| "insort_desc x (y # ys) = (if created_ge x y then x # y # ys else y # insort_desc x ys)"

definition sort_created_desc :: "call_request list \<Rightarrow> call_request list" where
  "sort_created_desc xs = foldr insort_desc xs []"

datatype api_calls_response =
  ApiCallsError nat string
| ApiCallsOk nat "string option" nat "call_request list"

text \<open>
  \<open>api_calls\<close>: the argument is the \<open>x-api-key\<close> header, \<open>None\<close> when the request has
  none. The result carries the HTTP status, and on success \<open>client_id\<close>, \<open>total_calls\<close>
  and \<open>data\<close> (the projection \<open>{"_id": 0}\<close> hides the id of each returned document).
\<close>

definition api_calls :: "db \<Rightarrow> string option \<Rightarrow> api_calls_response" where
  "api_calls d key =
     (case key of
        None \<Rightarrow> ApiCallsError 401 ''API key required''
      | Some k \<Rightarrow>
          if k = [] then ApiCallsError 401 ''API key required''
          else (case find_one (\<lambda>a. ak_api_key a = Some k) (api_keys d) of
                  None \<Rightarrow> ApiCallsError 401 ''Invalid API key''
                | Some api \<Rightarrow>
                    (let client_id = ak_client_id api;
                         scope = (case ak_scope api of None \<Rightarrow> ''ALL_APPS'' | Some s \<Rightarrow> s);
                         scoped_app = ak_app_name api;
                         single = (scope = ''SINGLE_APP'' \<and> scoped_app \<noteq> None \<and> scoped_app \<noteq> Some []);
                         calls = sort_created_desc
                                   (find_many (\<lambda>r. cr_client_id r = client_id
                                                  \<and> (if single then cr_app_name r = scoped_app else True))
                                      (call_requests d))
                     in ApiCallsOk 200 client_id (length calls) calls)))"

section \<open>Form builder / app registry: create an application\<close>

text \<open>
  \<open>slugify\<close>: \<open>re.sub(r'[\W_]+', '-', text.lower()).strip('-')\<close>. Every run of
  characters that \<open>[\W_]\<close> matches (neither letters nor digits) becomes one hyphen.
\<close>

definition lower_char :: "char \<Rightarrow> char" where
  "lower_char c = (let n = (of_char c :: nat) in
     if (65 \<le> n \<and> n \<le> 90) \<or> (192 \<le> n \<and> n \<le> 214) \<or> (216 \<le> n \<and> n \<le> 222)
     then char_of (n + 32) else c)"

definition lower :: "string \<Rightarrow> string" where
  "lower s = map lower_char s"

definition is_alnum :: "char \<Rightarrow> bool" where
  "is_alnum c = (let n = (of_char c :: nat) in
     (48 \<le> n \<and> n \<le> 57) \<or> (65 \<le> n \<and> n \<le> 90) \<or> (97 \<le> n \<and> n \<le> 122)
     \<or> n = 170 \<or> n = 178 \<or> n = 179 \<or> n = 181 \<or> n = 185 \<or> n = 186
     \<or> (188 \<le> n \<and> n \<le> 190) \<or> (192 \<le> n \<and> n \<le> 214)
     \<or> (216 \<le> n \<and> n \<le> 246) \<or> 248 \<le> n)"

fun sub_runs :: "bool \<Rightarrow> string \<Rightarrow> string" where
  "sub_runs in_run [] = []"
| "sub_runs in_run (c # cs) =
     (if is_alnum c then c # sub_runs False cs
      else if in_run then sub_runs True cs
      else CHR ''-'' # sub_runs True cs)"

definition strip_char :: "char \<Rightarrow> string \<Rightarrow> string" where
  "strip_char x s = rev (dropWhile (\<lambda>c. c = x) (rev (dropWhile (\<lambda>c. c = x) s)))"

definition slugify :: "string \<Rightarrow> string" where
  "slugify text = strip_char CHR ''-'' (sub_runs False (lower text))"

definition DEFAULT_FORM_FIELDS :: "form_field list" where
  "DEFAULT_FORM_FIELDS =
     [\<lparr>label = ''Full Name'', name = ''name'', ftype = ''text'', required = True\<rparr>,
      \<lparr>label = ''Phone Number'', name = ''phone'', ftype = ''tel'', required = True\<rparr>,
      \<lparr>label = ''Email Address'', name = ''email'', ftype = ''email'', required = True\<rparr>,
      \<lparr>label = ''Address / Location'', name = ''address'', ftype = ''textarea'', required = False\<rparr>,
      \<lparr>label = ''Preferred Date'', name = ''date'', ftype = ''date'', required = False\<rparr>,
      \<lparr>label = ''Service Details'', name = ''query'', ftype = ''textarea'', required = False\<rparr>]"

text \<open>
  \<open>create_application\<close>. \<open>client_id\<close> is \<open>session.get("client_id")\<close>, \<open>app_name\<close> is
  \<open>data.get("app_name")\<close> of the JSON body; \<open>new_id\<close> is the ObjectId the store gives the
  inserted application and \<open>token\<close> is \<open>secrets.token_hex(16)\<close>. Both error returns are
  \<open>jsonify({"error": ...})\<close> with no status code, which Flask sends as 200.
\<close>

definition create_application ::
  "objid \<Rightarrow> string \<Rightarrow> db \<Rightarrow> string option \<Rightarrow> string option \<Rightarrow> response \<times> db" where
  "create_application new_id token d client_id app_name =
     (case app_name of
        None \<Rightarrow> (Json 200 [(''error'', ''App name required'')], d)
      | Some an \<Rightarrow>
          if an = [] then (Json 200 [(''error'', ''App name required'')], d)
          else (case find_one (\<lambda>a. ca_client_id a = client_id \<and> ca_app_name a = Some an)
                       (client_apps d) of
                  Some existing \<Rightarrow> (Json 200 [(''error'', ''App already exists'')], d)
                | None \<Rightarrow>
                    (let slug = slugify an;
                         app_id = id_str (OidId new_id)
                     in (Json 200 [(''status'', ''created''), (''app_id'', app_id)],
                         d\<lparr>client_apps := client_apps d @
                              [\<lparr>ca_id = OidId new_id, ca_client_id = client_id,
                                ca_app_name = Some an, ca_slug = Some slug\<rparr>],
                           form_builders := form_builders d @
                              [\<lparr>fb_client_id = client_id, fb_app_id = Some app_id,
                                fb_app_name = Some an, fb_slug = Some slug,
                                fb_fields = DEFAULT_FORM_FIELDS, fb_api_key = Some token\<rparr>]\<rparr>))))"

fun status_code :: "response \<Rightarrow> nat" where
  "status_code (Redirect u) = 302"
| "status_code (Json c b) = c"
| "status_code (Text c b) = c"

section \<open>Example data\<close>

definition blank_request :: "doc_id \<Rightarrow> call_request" where
  "blank_request i =
     \<lparr>cr_id = i, cr_client_id = None, cr_app_name = None, cr_name = None,
      cr_user_name = None, cr_phone = None, cr_status = None, cr_call_time = PNone,
      cr_call_initiated = None, cr_call_initiated_at = None, cr_twilio_sid = None,
      cr_call_error = None, cr_created_at = None\<rparr>"

definition r_hotel :: call_request where
  "r_hotel = (blank_request (StrId ''r1''))
               \<lparr>cr_client_id := Some acme_id, cr_app_name := Some ''Hotel''\<rparr>"

definition r_restaurant :: call_request where
  "r_restaurant = (blank_request (StrId ''r2''))
               \<lparr>cr_client_id := Some acme_id, cr_app_name := Some ''Restaurant''\<rparr>"

definition hotel_key :: api_key_doc where
  "hotel_key = \<lparr>ak_client_id = Some acme_id, ak_api_key = Some ''sk_hotel'',
                ak_scope = Some ''SINGLE_APP'', ak_app_name = Some ''Hotel''\<rparr>"

definition calls_db :: db where
  "calls_db = acme_db\<lparr>call_requests := [r_restaurant, r_hotel], api_keys := [hotel_key]\<rparr>"

section \<open>Telephony: SMS and outbound calls\<close>

text \<open>
  The telephony provider is outside the program. \<open>tw_client\<close> says whether
  \<open>twilio_client\<close> was created (both credentials set); \<open>tw_calls_create\<close> is the
  provider's answer to \<open>calls.create\<close>, given everything attempted so far: \<open>Some sid\<close>
  when the call is placed, \<open>None\<close> when the request raises. Every attempted
  \<open>calls.create\<close> and \<open>messages.create\<close> is appended to the log of the world.
\<close>

datatype effect =
  StatusSms string string string string
| ClientSms string string string string
| CallAttempt string string string "string option"

record twilio =
  tw_client :: bool
  tw_calls_create :: "effect list \<Rightarrow> string \<Rightarrow> string \<Rightarrow> string \<Rightarrow> string option"

record world =
  w_db :: db
  w_log :: "effect list"

definition is_digit :: "char \<Rightarrow> bool" where
  "is_digit c = (let n = (of_char c :: nat) in
     (48 \<le> n \<and> n \<le> 57) \<or> n = 178 \<or> n = 179 \<or> n = 185)"

text \<open>\<open>str(phone)\<close> of a field that may be absent: \<open>str(None)\<close> is \<open>"None"\<close>.\<close>

definition py_str :: "string option \<Rightarrow> string" where
  "py_str v = (case v of None \<Rightarrow> ''None'' | Some s \<Rightarrow> s)"

definition truthy :: "string option \<Rightarrow> bool" where
  "truthy v = (case v of None \<Rightarrow> False | Some s \<Rightarrow> s \<noteq> [])"

definition startswith :: "string \<Rightarrow> string \<Rightarrow> bool" where
  "startswith s p = (take (length p) s = p)"

definition set_initiated :: "datetime \<Rightarrow> string \<Rightarrow> call_request \<Rightarrow> call_request" where
  "set_initiated now sid r =
     r\<lparr>cr_call_initiated := Some True, cr_call_initiated_at := Some now,
       cr_twilio_sid := Some sid\<rparr>"

definition call_target :: "string option \<Rightarrow> string" where
  "call_target phone =
     (let clean_phone = filter is_digit (py_str phone)
      in if length clean_phone = 10 then ''+91'' @ clean_phone
         else if \<not> startswith (py_str phone) ''+'' then ''+'' @ clean_phone
         else py_str phone)"

text \<open>
  \<open>trigger_voice_call\<close> returns its boolean and the new world. Without a Twilio client
  it returns \<open>False\<close> before anything is attempted. After a placed call the booking is
  marked by \<open>_id = ObjectId(booking_id)\<close>; when that matches no document, or when
  \<open>ObjectId(booking_id)\<close> raises, by \<open>_id = booking_id\<close>.
\<close>

definition trigger_voice_call ::
  "twilio \<Rightarrow> datetime \<Rightarrow> world \<Rightarrow> string \<Rightarrow> string option \<Rightarrow> string \<Rightarrow> bool \<times> world" where
  "trigger_voice_call tw now w booking_id phone app_name =
     (if \<not> tw_client tw then (False, w)
      else
        (let target_phone = call_target phone
         in case tw_calls_create tw (w_log w) target_phone booking_id app_name of
              None \<Rightarrow>
                (False, w\<lparr>w_log := w_log w @ [CallAttempt target_phone booking_id app_name None]\<rparr>)
            | Some sid \<Rightarrow>
                (let crs = call_requests (w_db w);
                     by_string = snd (update_one (\<lambda>r. cr_id r = StrId booking_id)
                                        (set_initiated now sid) crs);
                     crs' = (case ObjectId booking_id of
                               None \<Rightarrow> by_string
                             | Some oid \<Rightarrow>
                                 (case update_one (\<lambda>r. cr_id r = OidId oid)
                                         (set_initiated now sid) crs of
                                    (matched_count, ys) \<Rightarrow>
                                      if matched_count = 0 then by_string else ys))
                 in (True,
                     \<lparr>w_db = (w_db w)\<lparr>call_requests := crs'\<rparr>,
                      w_log = w_log w
                              @ [CallAttempt target_phone booking_id app_name (Some sid)]\<rparr>))))"

definition sms_target :: "string option \<Rightarrow> string" where
  "sms_target phone =
     (let clean_phone = filter is_digit (py_str phone)
      in if length clean_phone = 10 then ''+91'' @ clean_phone
         else if startswith clean_phone ''91'' \<and> length clean_phone = 12 then ''+'' @ clean_phone
         else if \<not> startswith (py_str phone) ''+'' then ''+'' @ clean_phone
         else py_str phone)"

text \<open>
  \<open>send_status_sms\<close>: skipped without a Twilio client or without a phone; a failure of
  \<open>messages.create\<close> is caught and logged, so only the attempt is recorded.
\<close>

definition send_status_sms ::
  "twilio \<Rightarrow> world \<Rightarrow> string option \<Rightarrow> string \<Rightarrow> string \<Rightarrow> string \<Rightarrow> world" where
  "send_status_sms tw w phone status app_name user_name =
     (if \<not> tw_client tw \<or> \<not> truthy phone then w
      else w\<lparr>w_log := w_log w @ [StatusSms (sms_target phone) status app_name user_name]\<rparr>)"

section \<open>Review workflow: approve and reject\<close>

text \<open>
  The lookup of both handlers: \<open>ObjectId(id)\<close> and the query by it are in one \<open>try\<close>;
  only when the constructor raises is the booking looked up by the string itself.
\<close>

definition find_booking :: "call_request list \<Rightarrow> string \<Rightarrow> call_request option" where
  "find_booking crs i =
     (case ObjectId i of
        Some obj_id \<Rightarrow> find_one (\<lambda>r. cr_id r = OidId obj_id) crs
      | None \<Rightarrow> find_one (\<lambda>r. cr_id r = StrId i) crs)"

definition set_status :: "string \<Rightarrow> call_request \<Rightarrow> call_request" where
  "set_status s r = r\<lparr>cr_status := Some s\<rparr>"

definition booking_app_name :: "call_request \<Rightarrow> string" where
  "booking_app_name b = (case cr_app_name b of None \<Rightarrow> ''your request'' | Some a \<Rightarrow> a)"

definition booking_user_name :: "call_request \<Rightarrow> string" where
  "booking_user_name b =
     (case cr_name b of
        Some n \<Rightarrow> n
      | None \<Rightarrow> (case cr_user_name b of None \<Rightarrow> ''Customer'' | Some u \<Rightarrow> u))"

text \<open>
  \<open>call_time and call_time > now_ist\<close>, on whatever is stored under \<open>call_time\<close>: a
  falsy value ends the test, a \<open>datetime\<close> is compared, and comparing any other truthy
  value (posted text, for one) with a \<open>datetime\<close> raises \<open>TypeError\<close>.
\<close>

definition call_time_later :: "datetime \<Rightarrow> pyval \<Rightarrow> py_error + bool" where
  "call_time_later now call_time =
     (if \<not> py_truthy call_time then Inr False
      else (case call_time of
              PDateTime ct \<Rightarrow> Inr (dt_less now ct)
            | _ \<Rightarrow> Inl TypeError))"

text \<open>
  \<open>approve_booking\<close>. The comparison is outside any \<open>try\<close>: when it raises, the status
  update and the SMS have happened, and the error handler answers 500.
\<close>

definition approve_booking :: "twilio \<Rightarrow> datetime \<Rightarrow> world \<Rightarrow> string \<Rightarrow> response \<times> world" where
  "approve_booking tw now w i =
     (case find_booking (call_requests (w_db w)) i of
        None \<Rightarrow> (Redirect ''/booking-data'', w)
      | Some booking \<Rightarrow>
          (let w1 = w\<lparr>w_db := (w_db w)\<lparr>call_requests :=
                       snd (update_one (\<lambda>r. cr_id r = cr_id booking) (set_status ''APPROVED'')
                              (call_requests (w_db w)))\<rparr>\<rparr>;
               phone = cr_phone booking;
               app_name = booking_app_name booking;
               user_name = booking_user_name booking;
               w2 = send_status_sms tw w1 phone ''APPROVED'' app_name user_name;
               call_time = cr_call_time booking
           in case call_time_later now call_time of
                Inl e \<Rightarrow> (Json 500 [(''type'', ''TypeError'')], w2)
              | Inr later \<Rightarrow>
                  (Redirect ''/booking-data'',
                   if later then w2
                   else if truthy phone
                        then snd (trigger_voice_call tw now w2 (id_str (cr_id booking))
                                    phone app_name)
                        else w2)))"

definition reject_booking :: "twilio \<Rightarrow> world \<Rightarrow> string \<Rightarrow> response \<times> world" where
  "reject_booking tw w i =
     (case find_booking (call_requests (w_db w)) i of
        None \<Rightarrow> (Redirect ''/booking-data'', w)
      | Some booking \<Rightarrow>
          (let w1 = w\<lparr>w_db := (w_db w)\<lparr>call_requests :=
                       snd (update_one (\<lambda>r. cr_id r = cr_id booking) (set_status ''REJECTED'')
                              (call_requests (w_db w)))\<rparr>\<rparr>;
               phone = cr_phone booking;
               app_name = booking_app_name booking;
               user_name = booking_user_name booking
           in (Redirect ''/booking-data'',
               send_status_sms tw w1 phone ''REJECTED'' app_name user_name)))"

section \<open>Scheduled-call poller\<close>

text \<open>
  The query of \<open>check_scheduled_calls\<close>: status APPROVED, a \<open>call_time\<close> not after now,
  and \<open>call_initiated\<close> anything but true (also absent).
\<close>

definition is_due :: "datetime \<Rightarrow> call_request \<Rightarrow> bool" where
  "is_due now r =
     (cr_status r = Some ''APPROVED''
      \<and> (case cr_call_time r of PDateTime ct \<Rightarrow> dt_le ct now | _ \<Rightarrow> False)
      \<and> cr_call_initiated r \<noteq> Some True)"

definition set_call_error :: "call_request \<Rightarrow> call_request" where
  "set_call_error r = r\<lparr>cr_call_error := Some ''Failed to trigger scheduled call''\<rparr>"

text \<open>The body of the loop, for one document of the query's result.\<close>

definition process_call :: "twilio \<Rightarrow> datetime \<Rightarrow> call_request \<Rightarrow> world \<Rightarrow> world" where
  "process_call tw now call w =
     (let call_id = id_str (cr_id call);
          phone = cr_phone call;
          app_name = booking_app_name call
      in case trigger_voice_call tw now w call_id phone app_name of
           (success, w1) \<Rightarrow>
             if \<not> success
             then w1\<lparr>w_db := (w_db w1)\<lparr>call_requests :=
                       snd (update_one (\<lambda>r. cr_id r = cr_id call) set_call_error
                              (call_requests (w_db w1)))\<rparr>\<rparr>
             else w1)"

fun process_calls :: "twilio \<Rightarrow> datetime \<Rightarrow> call_request list \<Rightarrow> world \<Rightarrow> world" where
  "process_calls tw now [] w = w"
| "process_calls tw now (call # rest) w = process_calls tw now rest (process_call tw now call w)"

definition check_scheduled_calls :: "twilio \<Rightarrow> datetime \<Rightarrow> world \<Rightarrow> world" where
  "check_scheduled_calls tw now w =
     process_calls tw now (find_many (is_due now) (call_requests (w_db w))) w"

text \<open>Counting what was attempted.\<close>

fun is_status_sms :: "effect \<Rightarrow> bool" where
  "is_status_sms (StatusSms t s a u) = True"
| "is_status_sms e = False"

fun is_call :: "effect \<Rightarrow> bool" where
  "is_call (CallAttempt t b a r) = True"
| "is_call e = False"

fun is_call_for :: "string \<Rightarrow> effect \<Rightarrow> bool" where
  "is_call_for bid (CallAttempt t b a r) = (b = bid)"
| "is_call_for bid e = False"

definition sms_count :: "effect list \<Rightarrow> nat" where
  "sms_count log = length (filter is_status_sms log)"

definition call_count :: "effect list \<Rightarrow> nat" where
  "call_count log = length (filter is_call log)"

definition calls_for :: "string \<Rightarrow> effect list \<Rightarrow> effect list" where
  "calls_for bid log = filter (is_call_for bid) log"

text \<open>
  Well-formed ids of a collection: no two documents render to the same id string, and
  the update of \<open>trigger_voice_call\<close> keyed by \<open>str(_id)\<close> of a document resolves to
  that document (a string id is not shadowed by an ObjectId it would parse to).
\<close>

definition resolve :: "call_request list \<Rightarrow> string \<Rightarrow> doc_id" where
  "resolve crs bid =
     (case ObjectId bid of
        None \<Rightarrow> StrId bid
      | Some oid \<Rightarrow> if OidId oid \<in> set (map cr_id crs) then OidId oid else StrId bid)"

definition ids_wf :: "call_request list \<Rightarrow> bool" where
  "ids_wf crs =
     (distinct (map (\<lambda>r. id_str (cr_id r)) crs)
      \<and> list_all (\<lambda>r. resolve crs (id_str (cr_id r)) = cr_id r) crs)"

text \<open>Relations between a document before and after an update, used in the proofs.\<close>

definition same_status :: "call_request \<Rightarrow> call_request \<Rightarrow> bool" where
  "same_status a b = (cr_id b = cr_id a \<and> cr_status b = cr_status a)"

definition tw_ok :: twilio where
  "tw_ok = \<lparr>tw_client = True, tw_calls_create = (\<lambda>log to bid app. Some ''CA01'')\<rparr>"

definition tw_off :: twilio where
  "tw_off = \<lparr>tw_client = False, tw_calls_create = (\<lambda>log to bid app. Some ''CA01'')\<rparr>"

definition now0 :: datetime where
  "now0 = \<lparr>year = 2026, month = 11, day = 4, hour = 10, minute = 0, second = 0,
            microsecond = 0\<rparr>"

definition b_pending :: call_request where
  "b_pending = (blank_request (StrId ''b1''))
     \<lparr>cr_app_name := Some ''Hotel'', cr_name := Some ''Asha'',
       cr_phone := Some ''9876543210'', cr_status := Some ''PENDING''\<rparr>"

definition b_nophone :: call_request where
  "b_nophone = (blank_request (StrId ''b2''))
     \<lparr>cr_app_name := Some ''Hotel'', cr_name := Some ''Ravi'', cr_status := Some ''PENDING''\<rparr>"

definition w0 :: world where
  "w0 = \<lparr>w_db = empty_db\<lparr>call_requests := [b_pending, b_nophone]\<rparr>, w_log = []\<rparr>"

text \<open>
  A booking as \<open>request_call\<close> or \<open>submit_form\<close> stores it when the posted data has a
  field \<open>call_time\<close>: the text, not a \<open>datetime\<close>.
\<close>

definition b_text :: call_request where
  "b_text = (blank_request (StrId ''b3''))
     \<lparr>cr_app_name := Some ''Hotel'', cr_name := Some ''Asha'',
       cr_phone := Some ''9876543210'', cr_status := Some ''PENDING'',
       cr_call_time := PStr ''2026-11-05T10:00''\<rparr>"

definition w_text :: world where
  "w_text = \<lparr>w_db = empty_db\<lparr>call_requests := [b_text]\<rparr>, w_log = []\<rparr>"

definition evolves :: "call_request \<Rightarrow> call_request \<Rightarrow> bool" where
  "evolves a b = (cr_id b = cr_id a
     \<and> (cr_call_initiated a = Some True \<longrightarrow> cr_call_initiated b = Some True))"

definition b_due :: call_request where
  "b_due = (blank_request (OidId 0x65f0a1b2c3d4e5f6012345aa))
     \<lparr>cr_app_name := Some ''Hotel'', cr_name := Some ''Asha'',
       cr_phone := Some ''9876543210'', cr_status := Some ''APPROVED'',
       cr_call_time := PDateTime (now0\<lparr>hour := 9\<rparr>)\<rparr>"

definition w_due :: world where
  "w_due = \<lparr>w_db = empty_db\<lparr>call_requests := [b_nophone, b_due]\<rparr>, w_log = []\<rparr>"

section \<open>Analytics: the 7-day submission trend\<close>

text \<open>
  A calendar date is the triple (year, month, day); the text \<open>%Y-%m-%d\<close> that both
  \<open>$dateToString\<close> and \<open>strftime\<close> render compares and sorts as the triple does.
  \<open>minus_days k t\<close> is \<open>t - timedelta(days=k)\<close> in the proleptic Gregorian calendar (which
  Python bounds below by year 1; the clock of a handler is far from it).
\<close>

type_synonym date = "nat \<times> nat \<times> nat"

definition date_of :: "datetime \<Rightarrow> date" where
  "date_of t = (year t, month t, day t)"

definition is_leap :: "nat \<Rightarrow> bool" where
  "is_leap y = (y mod 4 = 0 \<and> (y mod 100 \<noteq> 0 \<or> y mod 400 = 0))"

definition days_in_month :: "nat \<Rightarrow> nat \<Rightarrow> nat" where
  "days_in_month y m =
     (if m = 2 then (if is_leap y then 29 else 28)
      else if m = 4 \<or> m = 6 \<or> m = 9 \<or> m = 11 then 30 else 31)"

definition prev_day :: "datetime \<Rightarrow> datetime" where
  "prev_day t =
     (if 1 < day t then t\<lparr>day := day t - 1\<rparr>
      else if 1 < month t
           then t\<lparr>month := month t - 1, day := days_in_month (year t) (month t - 1)\<rparr>
           else t\<lparr>year := year t - 1, month := 12, day := 31\<rparr>)"

primrec minus_days :: "nat \<Rightarrow> datetime \<Rightarrow> datetime" where
  "minus_days 0 t = t"
| "minus_days (Suc k) t = prev_day (minus_days k t)"

text \<open>
  The aggregation pipeline shared by the trend queries: \<open>$match\<close> (the handler's filter
  and \<open>created_at >= since\<close>, which only a stored date can satisfy), \<open>$group\<close> by the
  date of \<open>created_at\<close> with \<open>count: {$sum: 1}\<close>, \<open>$sort\<close> by that date ascending.
\<close>

definition created_on_or_after :: "datetime \<Rightarrow> call_request \<Rightarrow> bool" where
  "created_on_or_after since r =
     (case cr_created_at r of None \<Rightarrow> False | Some t \<Rightarrow> dt_le since t)"

definition created_date :: "call_request \<Rightarrow> date" where
  "created_date r = (case cr_created_at r of None \<Rightarrow> (0, 0, 0) | Some t \<Rightarrow> date_of t)"

definition trend_pipeline ::
  "(call_request \<Rightarrow> bool) \<Rightarrow> datetime \<Rightarrow> call_request list \<Rightarrow> (date \<times> nat) list" where
  "trend_pipeline match since crs =
     (let keys = map created_date
                   (filter (\<lambda>r. match r \<and> created_on_or_after since r) crs)
      in map (\<lambda>k. (k, count_list keys k)) (sort (remdups keys)))"

text \<open>\<open>next((x["count"] for x in trend_raw if x["_id"] == d), 0)\<close>\<close>

definition trend_value :: "(date \<times> nat) list \<Rightarrow> date \<Rightarrow> nat" where
  "trend_value trend_raw d =
     (case find (\<lambda>x. fst x = d) trend_raw of None \<Rightarrow> 0 | Some x \<Rightarrow> snd x)"

text \<open>
  \<open>analytics\<close> (client): \<open>utcnow k\<close> is the k-th reading of \<open>datetime.utcnow()\<close> by the
  handler, one for \<open>seven_days_ago\<close> and one in each of the seven loop iterations. The
  result is (\<open>trend_labels\<close>, \<open>trend_values\<close>).
\<close>

definition analytics_trend ::
  "(nat \<Rightarrow> datetime) \<Rightarrow> string option \<Rightarrow> call_request list \<Rightarrow> date list \<times> nat list" where
  "analytics_trend utcnow client_id crs =
     (let seven_days_ago = minus_days 7 (utcnow 0);
          trend_raw = trend_pipeline (\<lambda>r. cr_client_id r = client_id) seven_days_ago crs;
          trend_labels = map (\<lambda>i. date_of (minus_days (6 - i) (utcnow (Suc i)))) [0..<7];
          trend_values = map (trend_value trend_raw) trend_labels
      in (trend_labels, trend_values))"

text \<open>
  \<open>super_dashboard\<close> (\<open>trend_data\<close>) and \<open>system_analytics\<close> (\<open>calls_per_day\<close>): the list
  the pipeline returns is handed to the template as it is.
\<close>

definition admin_trend :: "(nat \<Rightarrow> datetime) \<Rightarrow> call_request list \<Rightarrow> (date \<times> nat) list" where
  "admin_trend utcnow crs = trend_pipeline (\<lambda>r. True) (minus_days 7 (utcnow 0)) crs"

text \<open>The number of matching documents created on a given date.\<close>

definition submissions_on :: "(call_request \<Rightarrow> bool) \<Rightarrow> date \<Rightarrow> call_request list \<Rightarrow> nat" where
  "submissions_on match d crs =
     length (filter (\<lambda>r. match r
                \<and> (case cr_created_at r of None \<Rightarrow> False | Some t \<Rightarrow> date_of t = d)) crs)"

text \<open>The number of documents created on a given date, at or after a given moment.\<close>

definition submissions_since :: "datetime \<Rightarrow> date \<Rightarrow> call_request list \<Rightarrow> nat" where
  "submissions_since since d crs =
     length (filter (\<lambda>r. case cr_created_at r of
                           None \<Rightarrow> False
                         | Some t \<Rightarrow> dt_le since t \<and> date_of t = d) crs)"

definition r_today :: call_request where
  "r_today = (blank_request (StrId ''t1''))
     \<lparr>cr_client_id := Some acme_id, cr_created_at := Some (now0\<lparr>hour := 8\<rparr>)\<rparr>"

definition clock0 :: "nat \<Rightarrow> datetime" where
  "clock0 k = now0"

section \<open>Booking intake\<close>

text \<open>
  The two functions of Python's \<open>datetime\<close> that intake calls. They belong to the
  standard library, so the handlers take them as a parameter: \<open>None\<close> is a raised
  exception, which both call sites catch.
\<close>

record pylib =
  fromisoformat :: "string \<Rightarrow> datetime option"
  strptime :: "string \<Rightarrow> string \<Rightarrow> datetime option"

text \<open>
  \<open>call_time.replace(year=y)\<close> builds a new \<open>datetime\<close> and validates it: a 29 February
  moved to a year that is not a leap year raises \<open>ValueError\<close>.
\<close>

definition replace_year :: "nat \<Rightarrow> datetime \<Rightarrow> py_error + datetime" where
  "replace_year y t =
     (if 1 \<le> y \<and> y \<le> 9999 \<and> 1 \<le> month t \<and> month t \<le> 12
         \<and> 1 \<le> day t \<and> day t \<le> days_in_month y (month t)
      then Inr (t\<lparr>year := y\<rparr>) else Inl ValueError)"

text \<open>
  The block "BASIC YEAR FIX" of \<open>api_submit\<close> and of \<open>submit_form\<close>: the value it leaves
  in the local variable \<open>call_time\<close>, or the exception of \<open>replace\<close>.
\<close>

definition year_fix :: "nat \<Rightarrow> datetime option \<Rightarrow> py_error + datetime option" where
  "year_fix now_year call_time =
     (case call_time of
        None \<Rightarrow> Inr None
      | Some t \<Rightarrow>
          if year t < 2000
          then (case (if year t = 26 then replace_year 2026 t else replace_year now_year t) of
                  Inl e \<Rightarrow> Inl e
                | Inr t' \<Rightarrow> Inr (Some t'))
          else Inr (Some t))"

text \<open>\<open>contains sub s\<close> is Python's \<open>sub in s\<close> on strings.\<close>

fun contains :: "string \<Rightarrow> string \<Rightarrow> bool" where
  "contains sub [] = (sub = [])"
| "contains sub (c # cs) = (startswith (c # cs) sub \<or> contains sub cs)"

text \<open>
  \<open>api_submit\<close>, step 1: the loop over the form's fields. A later field that matches
  overwrites what an earlier one set. (The time label is found the same way; it only
  feeds the stored \<open>time\<close> text, which is not modelled, like \<open>data\<close>, \<open>ai_reply\<close>,
  \<open>query\<close>, \<open>time_str\<close> and \<open>createdAt\<close>.)
\<close>

record detected =
  phone_label :: string
  phone_field_name :: string
  name_label :: string
  name_field_name :: string

definition detect_field :: "detected \<Rightarrow> form_field \<Rightarrow> detected" where
  "detect_field d field =
     (let label_text = lower (label field);
          field_name = lower (name field);
          d1 = (if contains ''phone'' label_text \<or> contains ''phone'' field_name
                   \<or> contains ''mobile'' label_text \<or> contains ''number'' label_text
                then d\<lparr>phone_label := label field, phone_field_name := name field\<rparr>
                else d)
      in if contains ''name'' label_text \<or> contains ''name'' field_name
         then d1\<lparr>name_label := label field, name_field_name := name field\<rparr>
         else d1)"

definition detect_fields :: "form_field list \<Rightarrow> detected" where
  "detect_fields form_fields =
     foldl detect_field
       \<lparr>phone_label = [], phone_field_name = [], name_label = [], name_field_name = []\<rparr>
       form_fields"

text \<open>
  The submitted field map is a dict from keys to text, as a form post delivers it and as
  the JSON bodies of the specification have it (JSON values of other types are outside
  the model). "Try label first, then field name", then the fallback over a fixed list of
  keys when the value so far is falsy.
\<close>

definition by_label :: "string \<Rightarrow> string \<Rightarrow> (string \<rightharpoonup> string) \<Rightarrow> string option" where
  "by_label lab field_name data =
     (if lab \<noteq> [] \<and> data lab \<noteq> None then data lab
      else if field_name \<noteq> [] \<and> data field_name \<noteq> None then data field_name
      else None)"

fun first_key :: "string list \<Rightarrow> (string \<rightharpoonup> string) \<Rightarrow> string option" where
  "first_key [] data = None"
| "first_key (key # keys) data =
     (case data key of Some v \<Rightarrow> Some v | None \<Rightarrow> first_key keys data)"

definition fallback :: "string list \<Rightarrow> (string \<rightharpoonup> string) \<Rightarrow> string option \<Rightarrow> string option" where
  "fallback keys data v =
     (if truthy v then v
      else (case first_key keys data of Some x \<Rightarrow> Some x | None \<Rightarrow> v))"

definition NAME_KEYS :: "string list" where
  "NAME_KEYS = [''name'', ''Name'', ''full_name'', ''Full Name'', ''fullname'', ''user_name'',
                ''username'']"

definition PHONE_KEYS :: "string list" where
  "PHONE_KEYS = [''phone'', ''Phone'', ''phone_number'', ''Phone Number'', ''mobile'',
                 ''Mobile'', ''phone number'']"

text \<open>"Clean and validate phone number": \<open>strip()\<close>, four \<open>replace\<close> calls, and the check.\<close>

definition is_space :: "char \<Rightarrow> bool" where
  "is_space c = (let n = (of_char c :: nat) in
     (9 \<le> n \<and> n \<le> 13) \<or> (28 \<le> n \<and> n \<le> 32) \<or> n = 133 \<or> n = 160)"

definition strip :: "string \<Rightarrow> string" where
  "strip s = rev (dropWhile is_space (rev (dropWhile is_space s)))"

definition clean_phone :: "string option \<Rightarrow> string option" where
  "clean_phone phone_num =
     (if truthy phone_num
      then (let p = filter (\<lambda>c. c \<notin> set '' -()'') (strip (py_str phone_num))
            in if length p < 10 \<or> \<not> list_ex is_digit p then None else Some p)
      else phone_num)"

text \<open>\<open>datetime.fromisoformat\<close>, and on its failure \<open>strptime\<close> with \<open>%Y-%m-%d %H:%M\<close>.\<close>

definition parse_call_time :: "pylib \<Rightarrow> string option \<Rightarrow> datetime option" where
  "parse_call_time py pref_call_time =
     (if truthy pref_call_time
      then (case fromisoformat py (py_str pref_call_time) of
              Some t \<Rightarrow> Some t
            | None \<Rightarrow> strptime py (py_str pref_call_time) ''%Y-%m-%d %H:%M'')
      else None)"

text \<open>
  \<open>notify_client_sms\<close>: the client is looked up by email, then by string id, then, for
  an id of 24 characters, by ObjectId; the SMS goes to \<open>phone\<close> or else \<open>number\<close>.
\<close>

definition notify_client_sms ::
  "twilio \<Rightarrow> world \<Rightarrow> string option \<Rightarrow> string \<Rightarrow> string \<Rightarrow> string \<Rightarrow> world" where
  "notify_client_sms tw w client_id app_name user_name user_phone =
     (if \<not> tw_client tw then w
      else
        (let cs = clients (w_db w);
             cid = py_str client_id;
             by_email = find_one (\<lambda>c. c_email c = Some cid) cs;
             by_string = (if by_email = None then find_one (\<lambda>c. c_id c = StrId cid) cs
                          else by_email);
             client = (if by_string = None \<and> length cid = 24
                       then (case ObjectId cid of
                               None \<Rightarrow> None
                             | Some oid \<Rightarrow> find_one (\<lambda>c. c_id c = OidId oid) cs)
                       else by_string)
         in case client of
              None \<Rightarrow> w
            | Some c \<Rightarrow>
                (let client_phone = (if truthy (c_phone c) then c_phone c else c_number c)
                 in if \<not> truthy client_phone then w
                    else w\<lparr>w_log := w_log w
                           @ [ClientSms (call_target client_phone) app_name user_name
                                user_phone]\<rparr>)))"

text \<open>The values of \<open>user_name\<close> and \<open>phone_num\<close> before the defaults are applied.\<close>

definition matched_name :: "form_builder \<Rightarrow> (string \<rightharpoonup> string) \<Rightarrow> string option" where
  "matched_name form data =
     (let d = detect_fields (fb_fields form)
      in fallback NAME_KEYS data (by_label (name_label d) (name_field_name d) data))"

definition matched_phone :: "form_builder \<Rightarrow> (string \<rightharpoonup> string) \<Rightarrow> string option" where
  "matched_phone form data =
     (let d = detect_fields (fb_fields form)
      in fallback PHONE_KEYS data (by_label (phone_label d) (phone_field_name d) data))"

text \<open>
  \<open>api_submit\<close> (POST \<open>/api/submit/<api_key>\<close>). \<open>now\<close> is \<open>datetime.now(IST)\<close>, \<open>new_id\<close>
  the ObjectId the store gives the inserted document, \<open>ai_reply\<close> the text step 2 leaves
  in \<open>ai_reply\<close> (every failure of the completion call is caught there). Step 4, the call,
  is commented out in the source: \<open>call_initiated\<close> is always false.
\<close>

definition api_submit ::
  "pylib \<Rightarrow> twilio \<Rightarrow> datetime \<Rightarrow> objid \<Rightarrow> string \<Rightarrow> world \<Rightarrow> string
     \<Rightarrow> (string \<rightharpoonup> string) \<Rightarrow> response \<times> world" where
  "api_submit py tw now new_id ai_reply w api_key data =
     (case find_one (\<lambda>f. fb_api_key f = Some api_key) (form_builders (w_db w)) of
        None \<Rightarrow> (Text 403 ''Invalid API key'', w)
      | Some form \<Rightarrow>
          (let client_id = fb_client_id form;
               app_name = fb_app_name form;
               user_name = matched_name form data;
               call_time = parse_call_time py (data ''preferred_call_time'')
           in case year_fix (year now) call_time of
                Inl e \<Rightarrow>
                  (Json 500 [(''error'', ''day is out of range for month''),
                             (''type'', ''ValueError'')], w)
              | Inr call_time \<Rightarrow>
                  (let phone_num = clean_phone (matched_phone form data);
                       display_name = (if truthy user_name then py_str user_name
                                       else ''Unknown User'');
                       display_phone = (if truthy phone_num then py_str phone_num
                                        else ''No Phone Provided'');
                       call_request = (blank_request (OidId new_id))
                         \<lparr>cr_client_id := client_id, cr_app_name := app_name,
                           cr_name := Some display_name, cr_phone := Some display_phone,
                           cr_status := Some ''PENDING'',
                           cr_call_time := (case call_time of
                                              None \<Rightarrow> PNone
                                            | Some t \<Rightarrow> PDateTime t),
                           cr_created_at := Some now\<rparr>;
                       w1 = w\<lparr>w_db := (w_db w)\<lparr>call_requests :=
                                call_requests (w_db w) @ [call_request]\<rparr>\<rparr>;
                       w2 = notify_client_sms tw w1 client_id (py_str app_name) display_name
                              display_phone
                   in (Json 200 [(''status'', ''success''), (''message'', ai_reply),
                                 (''call_id'', id_str (OidId new_id)),
                                 (''user_name'', display_name), (''phone'', display_phone),
                                 (''call_initiated'', ''false'')],
                       w2))))"

text \<open>
  \<open>submit_form\<close> (POST \<open>/submit/<app_name>\<close>) inserts the dict \<open>data\<close> itself. Its values
  are the posted texts, \<open>None\<close> and \<open>datetime\<close>s; the dict keeps insertion order, and
  assigning to an existing key keeps the key's place.
\<close>

type_synonym pydict = "(string \<times> pyval) list"

fun dict_set :: "pydict \<Rightarrow> string \<Rightarrow> pyval \<Rightarrow> pydict" where
  "dict_set [] k v = [(k, v)]"
| "dict_set ((k', v') # kvs) k v =
     (if k' = k then (k, v) # kvs else (k', v') # dict_set kvs k v)"

definition pv_truthy :: "pyval option \<Rightarrow> bool" where
  "pv_truthy x = (case x of None \<Rightarrow> False | Some v \<Rightarrow> py_truthy v)"

text \<open>
  The body of \<open>for k, v in data.items()\<close>, on the dict and the local \<open>call_time\<close>
  (\<open>extracted_name\<close>, \<open>extracted_phone\<close> and \<open>extracted_time\<close> only feed the notification).
\<close>

definition submit_step ::
  "pylib \<Rightarrow> string \<Rightarrow> pyval \<Rightarrow> pydict \<times> datetime option \<Rightarrow> pydict \<times> datetime option" where
  "submit_step py k v st =
     (let data = fst st;
          call_time = snd st;
          low_k = lower k;
          data = (if \<not> pv_truthy (map_of data ''name'') \<and> contains ''name'' low_k
                  then dict_set data ''name'' v else data);
          data = (if \<not> pv_truthy (map_of data ''phone'')
                     \<and> (contains ''phone'' low_k \<or> contains ''mobile'' low_k
                          \<or> contains ''contact'' low_k)
                  then dict_set data ''phone'' v else data);
          data = (if \<not> pv_truthy (map_of data ''time'')
                     \<and> (contains ''time'' low_k \<or> contains ''booking'' low_k
                          \<or> contains ''slot'' low_k)
                  then dict_set data ''time'' v else data)
      in if contains ''preferred_call_time'' low_k \<and> pv_truthy (Some v)
         then (case v of
                 PStr s \<Rightarrow>
                   (case strptime py s ''%Y-%m-%dT%H:%M'' of
                      Some t \<Rightarrow> (dict_set data ''call_time'' (PDateTime t), Some t)
                    | None \<Rightarrow> (data, call_time))
               | _ \<Rightarrow> (data, call_time))
         else (data, call_time))"

text \<open>
  The iteration itself: before every step, also the one that would end the loop, the
  iterator compares the size of the dict with the size it started with and raises
  \<open>RuntimeError: dictionary changed size during iteration\<close> when a key was added.
\<close>

fun items_loop ::
  "pylib \<Rightarrow> nat \<Rightarrow> nat list \<Rightarrow> pydict \<times> datetime option
     \<Rightarrow> py_error + pydict \<times> datetime option" where
  "items_loop py n0 [] st = (if length (fst st) \<noteq> n0 then Inl RuntimeError else Inr st)"
| "items_loop py n0 (i # rest) st =
     (if length (fst st) \<noteq> n0 then Inl RuntimeError
      else items_loop py n0 rest (submit_step py (fst (fst st ! i)) (snd (fst st ! i)) st))"

text \<open>
  The result is the document handed to \<open>insert_one\<close>, or the exception that escapes. The
  year fix assigns to the local \<open>call_time\<close> only, after \<open>data["call_time"]\<close> was set in
  the loop, so its result is not part of the document. (The client notification and the
  success page follow the insert.)
\<close>

definition submit_form ::
  "pylib \<Rightarrow> datetime \<Rightarrow> db \<Rightarrow> string option \<Rightarrow> string \<Rightarrow> (string \<times> string) list
     \<Rightarrow> py_error + pydict" where
  "submit_form py now d session_client_id app_name form =
     (let data = map (\<lambda>kv. (fst kv, PStr (snd kv))) form;
          form_config = find_one (\<lambda>f. fb_app_name f = Some app_name) (form_builders d);
          client_id = (case form_config of
                         Some f \<Rightarrow> fb_client_id f
                       | None \<Rightarrow> session_client_id);
          data = dict_set data ''app_name'' (PStr app_name);
          data = dict_set data ''client_id''
                   (case client_id of None \<Rightarrow> PNone | Some c \<Rightarrow> PStr c);
          data = dict_set data ''status'' (PStr ''PENDING'');
          data = dict_set data ''created_at'' (PDateTime now)
      in case items_loop py (length data) [0..<length data] (data, None) of
           Inl e \<Rightarrow> Inl e
         | Inr st \<Rightarrow>
             (case year_fix (year now) (snd st) of
                Inl e \<Rightarrow> Inl e
              | Inr call_time \<Rightarrow> Inr (fst st)))"

text \<open>
  An instance of the library parameter for the examples: it reads the fixed-width form
  \<open>YYYY-MM-DD?HH:MM\<close> that a \<open>datetime-local\<close> input sends, as both Python functions do.
\<close>

definition digits_val :: "string \<Rightarrow> nat option" where
  "digits_val s =
     (if s \<noteq> [] \<and> list_all (\<lambda>c. 48 \<le> (of_char c :: nat) \<and> (of_char c :: nat) \<le> 57) s
      then Some (foldl (\<lambda>a c. 10 * a + (of_char c - 48)) 0 s) else None)"

definition parse_minutes :: "char \<Rightarrow> string \<Rightarrow> datetime option" where
  "parse_minutes sep s =
     (if length s = 16 \<and> s ! 4 = CHR ''-'' \<and> s ! 7 = CHR ''-'' \<and> s ! 10 = sep
         \<and> s ! 13 = CHR '':''
      then (case (digits_val (take 4 s), digits_val (take 2 (drop 5 s)),
                  digits_val (take 2 (drop 8 s)), digits_val (take 2 (drop 11 s)),
                  digits_val (take 2 (drop 14 s))) of
              (Some y, Some m, Some d, Some h, Some mi) \<Rightarrow>
                if 1 \<le> y \<and> 1 \<le> m \<and> m \<le> 12 \<and> 1 \<le> d \<and> d \<le> days_in_month y m
                   \<and> h < 24 \<and> mi < 60
                then Some \<lparr>year = y, month = m, day = d, hour = h, minute = mi, second = 0,
                           microsecond = 0\<rparr>
                else None
            | _ \<Rightarrow> None)
      else None)"

definition py0 :: pylib where
  "py0 = \<lparr>fromisoformat = parse_minutes CHR ''T'',
           strptime = (\<lambda>s fmt. if fmt = ''%Y-%m-%dT%H:%M'' then parse_minutes CHR ''T'' s
                               else if fmt = ''%Y-%m-%d %H:%M'' then parse_minutes CHR '' '' s
                               else None)\<rparr>"

text \<open>Example forms, stores and submissions.\<close>

definition hotel_form :: form_builder where
  "hotel_form = \<lparr>fb_client_id = Some acme_id, fb_app_id = Some ''a1'',
     fb_app_name = Some ''Hotel'', fb_slug = Some ''hotel'',
     fb_fields = [\<lparr>label = ''Full Name'', name = ''name'', ftype = ''text'', required = True\<rparr>,
                  \<lparr>label = ''Phone Number'', name = ''phone'', ftype = ''tel'', required = True\<rparr>],
     fb_api_key = Some ''k1''\<rparr>"


definition w_forms :: world where
  "w_forms = \<lparr>w_db = empty_db\<lparr>form_builders := [hotel_form]\<rparr>, w_log = []\<rparr>"



definition leap_payload :: "string \<rightharpoonup> string" where
  "leap_payload = [''preferred_call_time'' \<mapsto> ''1996-02-29T10:00'']"

definition legacy_form :: "(string \<times> string) list" where
  "legacy_form = [(''name'', ''Asha''), (''time'', ''10:00''), (''call_time'', ''x''),
                  (''preferred_call_time'', ''0026-05-01T10:00'')]"

definition usual_form :: "(string \<times> string) list" where
  "usual_form = [(''name'', ''Asha''), (''phone'', ''9876543210''),
                 (''preferred_call_time'', ''0026-05-01T10:00'')]"

section \<open>Admin: issuing API keys\<close>

text \<open>
  \<open>api_key_page\<close>, POST: \<open>token\<close> is \<open>secrets.token_hex(16)\<close>. A key keeps the scope
  SINGLE_APP only together with a non-empty \<open>app_name\<close>; otherwise its scope is set to
  ALL_APPS and no \<open>app_name\<close> is stored.
\<close>

definition api_key_page_post ::
  "string \<Rightarrow> db \<Rightarrow> string option \<Rightarrow> string option \<Rightarrow> string option \<Rightarrow> response \<times> db" where
  "api_key_page_post token d client_id scope app_name =
     (let key = ''sk_'' @ token;
          new_key_data =
            (if scope = Some ''SINGLE_APP'' \<and> truthy app_name
             then \<lparr>ak_client_id = client_id, ak_api_key = Some key, ak_scope = scope,
                   ak_app_name = app_name\<rparr>
             else \<lparr>ak_client_id = client_id, ak_api_key = Some key,
                   ak_scope = Some ''ALL_APPS'', ak_app_name = None\<rparr>)
      in (Redirect ''/api-key'', d\<lparr>api_keys := api_keys d @ [new_key_data]\<rparr>))"

definition scoped_keys_bound :: "db \<Rightarrow> bool" where
  "scoped_keys_bound d =
     list_all (\<lambda>a. ak_scope a = Some ''SINGLE_APP'' \<longrightarrow> truthy (ak_app_name a)) (api_keys d)"

section \<open>Properties\<close>

lemma filter_delete_many: "filter P (delete_many P xs) = []"
  by (induction xs) (auto simp: delete_many_def)

lemma ObjectId_acme: "ObjectId acme_id \<noteq> None"
  by (simp add: ObjectId_def acme_id_def is_hex_def)

text \<open>
  C1 (as stated in the specification): after delete-client no Application, FormBuilder,
  CallRequest and LlmSettings document with that client id remains. The handler never
  deletes from \<open>llm_settings\<close>: for the client id \<open>acme_id\<close>, a valid ObjectId string,
  the one LlmSettings document of that client is still in the store afterwards.
\<close>

theorem delete_client_keeps_llm_settings:
  "length (llm_of acme_id (snd (delete_client acme_db acme_id))) = 1"
  using ObjectId_acme
  by (auto simp: delete_client_def llm_of_def acme_db_def empty_db_def)

text \<open>
  C1 (amended): for every client id that \<open>ObjectId\<close> accepts, after delete-client no
  Application, no FormBuilder and no CallRequest with that client id remains, and the
  LlmSettings collection is unchanged.
\<close>

theorem delete_client_cascade:
  assumes "ObjectId cid = Some oid"
  shows "apps_of cid (snd (delete_client d cid)) = []
       \<and> forms_of cid (snd (delete_client d cid)) = []
       \<and> requests_of cid (snd (delete_client d cid)) = []
       \<and> llm_settings (snd (delete_client d cid)) = llm_settings d"
  using assms
  by (simp add: delete_client_def apps_of_def forms_of_def requests_of_def filter_delete_many)

theorem delete_client_cascade_witness:
  "apps_of acme_id (snd (delete_client acme_db acme_id)) = []
   \<and> forms_of acme_id (snd (delete_client acme_db acme_id)) = []
   \<and> requests_of acme_id (snd (delete_client acme_db acme_id)) = []
   \<and> apps_of acme_id acme_db \<noteq> []"
proof -
  obtain oid where h: "ObjectId acme_id = Some oid"
    using ObjectId_acme by blast
  have "apps_of acme_id acme_db \<noteq> []"
    by (simp add: apps_of_def acme_db_def empty_db_def)
  with delete_client_cascade [OF h, of acme_db] show ?thesis by simp
qed


lemma find_one_None_iff: "find_one P xs = None \<longleftrightarrow> (\<forall>x\<in>set xs. \<not> P x)"
  by (auto simp: find_one_def find_None_iff)

lemma find_one_Some_holds: "find_one P xs = Some x \<Longrightarrow> P x \<and> x \<in> set xs"
  by (auto simp: find_one_def find_Some_iff)

lemma set_insort_desc: "set (insort_desc x xs) = insert x (set xs)"
  by (induction xs) auto

lemma set_sort_created_desc: "set (sort_created_desc xs) = set xs"
  by (induction xs) (auto simp: sort_created_desc_def set_insort_desc)

text \<open>
  C6: a GET /api/calls request whose \<open>x-api-key\<close> header is missing (or empty) or matches
  no stored ApiKey is answered 401 with an error message and no booking data; with a
  key whose scope is SINGLE_APP and which is bound to an app name, every returned
  record has that app name.
\<close>

theorem api_calls_auth_and_scope:
  "((key = None \<or> key = Some [] \<or> (\<forall>a\<in>set (api_keys d). ak_api_key a \<noteq> key))
      \<longrightarrow> (\<exists>msg. api_calls d key = ApiCallsError 401 msg))
   \<and> ((key = Some k \<and> k \<noteq> []
        \<and> find_one (\<lambda>a. ak_api_key a = Some k) (api_keys d) = Some api
        \<and> ak_scope api = Some ''SINGLE_APP'' \<and> ak_app_name api = Some app \<and> app \<noteq> [])
      \<longrightarrow> (\<exists>rs. api_calls d key = ApiCallsOk 200 (ak_client_id api) (length rs) rs
                \<and> (\<forall>r\<in>set rs. cr_app_name r = Some app)))"
proof (intro conjI impI)
  assume u: "key = None \<or> key = Some [] \<or> (\<forall>a\<in>set (api_keys d). ak_api_key a \<noteq> key)"
  show "\<exists>msg. api_calls d key = ApiCallsError 401 msg"
  proof (cases key)
    case None
    then show ?thesis by (simp add: api_calls_def)
  next
    case (Some k')
    show ?thesis
    proof (cases "k' = []")
      case True
      with Some show ?thesis by (simp add: api_calls_def)
    next
      case False
      with Some u have "\<forall>a\<in>set (api_keys d). \<not> ak_api_key a = Some k'" by auto
      then have "find_one (\<lambda>a. ak_api_key a = Some k') (api_keys d) = None"
        by (simp add: find_one_None_iff)
      with Some False show ?thesis by (simp add: api_calls_def)
    qed
  qed
next
  assume h: "key = Some k \<and> k \<noteq> []
        \<and> find_one (\<lambda>a. ak_api_key a = Some k) (api_keys d) = Some api
        \<and> ak_scope api = Some ''SINGLE_APP'' \<and> ak_app_name api = Some app \<and> app \<noteq> []"
  let ?rs = "sort_created_desc
               (find_many (\<lambda>r. cr_client_id r = ak_client_id api \<and> cr_app_name r = Some app)
                  (call_requests d))"
  from h have "api_calls d key = ApiCallsOk 200 (ak_client_id api) (length ?rs) ?rs"
    by (simp add: api_calls_def Let_def)
  moreover have "\<forall>r\<in>set ?rs. cr_app_name r = Some app"
    by (simp add: set_sort_created_desc find_many_def)
  ultimately show "\<exists>rs. api_calls d key = ApiCallsOk 200 (ak_client_id api) (length rs) rs
                \<and> (\<forall>r\<in>set rs. cr_app_name r = Some app)"
    by blast
qed

theorem api_calls_auth_and_scope_witness:
  "api_calls calls_db (Some ''sk_unknown'') = ApiCallsError 401 ''Invalid API key''
   \<and> find_one (\<lambda>a. ak_api_key a = Some ''sk_hotel'') (api_keys calls_db) = Some hotel_key
   \<and> api_calls calls_db (Some ''sk_hotel'') = ApiCallsOk 200 (Some acme_id) 1 [r_hotel]"
proof -
  have e1: "api_calls calls_db (Some ''sk_unknown'') = ApiCallsError 401 ''Invalid API key''"
    by (simp add: api_calls_def calls_db_def acme_db_def empty_db_def hotel_key_def find_one_def)
  have e2: "find_one (\<lambda>a. ak_api_key a = Some ''sk_hotel'') (api_keys calls_db) = Some hotel_key"
    by (simp add: calls_db_def acme_db_def empty_db_def hotel_key_def find_one_def)
  have e3: "api_calls calls_db (Some ''sk_hotel'') = ApiCallsOk 200 (Some acme_id) 1 [r_hotel]"
    by (simp add: api_calls_def calls_db_def acme_db_def empty_db_def hotel_key_def find_one_def
        find_many_def sort_created_desc_def r_hotel_def r_restaurant_def blank_request_def
        Let_def)
  note t = api_calls_auth_and_scope [where key = "Some ''sk_hotel''" and d = calls_db
      and k = "''sk_hotel''" and api = hotel_key and app = "''Hotel''"]
  from t e1 e2 e3 show ?thesis by simp
qed

text \<open>
  C7 (as stated in the specification): a create_application request for an app name the
  client already has is rejected as a 4xx validation error. The handler answers with
  \<open>jsonify({"error": "App already exists"})\<close> and no status code: the status is 200.
\<close>

theorem create_application_duplicate_is_200:
  "status_code (fst (create_application 0 ''t0'' acme_db (Some acme_id) (Some ''Hotel''))) = 200"
  by (simp add: create_application_def acme_db_def empty_db_def find_one_def)

text \<open>
  C7 (amended): a create_application request whose app name already exists for the
  requesting client is answered with the JSON error message "App already exists" (HTTP
  status 200), and nothing is inserted: the store is unchanged.
\<close>

theorem create_application_duplicate_rejected:
  assumes "an \<noteq> []" and "a \<in> set (client_apps d)"
      and "ca_client_id a = cid" and "ca_app_name a = Some an"
  shows "create_application new_id token d cid (Some an)
           = (Json 200 [(''error'', ''App already exists'')], d)"
proof -
  have "find_one (\<lambda>x. ca_client_id x = cid \<and> ca_app_name x = Some an) (client_apps d) \<noteq> None"
    using assms by (auto simp: find_one_None_iff)
  with assms(1) show ?thesis
    by (auto simp: create_application_def)
qed

theorem create_application_duplicate_rejected_witness:
  "hd (client_apps acme_db) \<in> set (client_apps acme_db)
   \<and> ca_client_id (hd (client_apps acme_db)) = Some acme_id
   \<and> ca_app_name (hd (client_apps acme_db)) = Some ''Hotel''
   \<and> create_application 0 ''t0'' acme_db (Some acme_id) (Some ''Hotel'')
       = (Json 200 [(''error'', ''App already exists'')], acme_db)"
proof -
  have h: "''Hotel'' \<noteq> []" "hd (client_apps acme_db) \<in> set (client_apps acme_db)"
    "ca_client_id (hd (client_apps acme_db)) = Some acme_id"
    "ca_app_name (hd (client_apps acme_db)) = Some ''Hotel''"
    by (simp_all add: acme_db_def empty_db_def)
  from create_application_duplicate_rejected [OF h, of 0 "''t0''"] h show ?thesis by simp
qed

lemma update_one_rel:
  assumes "\<And>x. R x x" and "\<And>x. R x (f x)"
  shows "list_all2 R xs (snd (update_one P f xs))"
  using assms by (induction xs) (auto split: prod.splits simp: list_all2_refl)

lemma update_one_matched:
  "fst (update_one P f xs) = 0 \<longleftrightarrow> (\<forall>x\<in>set xs. \<not> P x)"
  by (induction xs) (auto split: prod.splits)

lemma find_one_rel:
  assumes "list_all2 R xs ys" and "\<And>a b. R a b \<Longrightarrow> cr_id b = cr_id a"
      and "find_one (\<lambda>r. cr_id r = X) xs = Some a"
  shows "\<exists>b. find_one (\<lambda>r. cr_id r = X) ys = Some b \<and> R a b"
  using assms
  by (induction xs ys rule: list_all2_induct) (auto simp: find_one_def split: if_splits)

lemma find_one_update_same:
  assumes "find_one P xs = Some b" and "\<And>x. P x \<Longrightarrow> P (f x)"
  shows "find_one P (snd (update_one P f xs)) = Some (f b)"
  using assms by (induction xs) (auto simp: find_one_def split: prod.splits if_splits)

lemma update_by_resolve:
  "(case ObjectId bid of
      None \<Rightarrow> snd (update_one (\<lambda>r. cr_id r = StrId bid) f crs)
    | Some oid \<Rightarrow>
        (case update_one (\<lambda>r. cr_id r = OidId oid) f crs of
           (matched_count, ys) \<Rightarrow>
             if matched_count = 0 then snd (update_one (\<lambda>r. cr_id r = StrId bid) f crs) else ys))
   = snd (update_one (\<lambda>r. cr_id r = resolve crs bid) f crs)"
proof (cases "ObjectId bid")
  case None
  then show ?thesis by (simp add: resolve_def)
next
  case (Some oid)
  obtain n ys where u: "update_one (\<lambda>r. cr_id r = OidId oid) f crs = (n, ys)"
    by (cases "update_one (\<lambda>r. cr_id r = OidId oid) f crs")
  have "n = 0 \<longleftrightarrow> OidId oid \<notin> set (map cr_id crs)"
    using update_one_matched [of "\<lambda>r. cr_id r = OidId oid" f crs] u by force
  with Some u show ?thesis by (auto simp: resolve_def)
qed

lemma trigger_voice_call_eq:
  "trigger_voice_call tw now w bid phone app =
     (if \<not> tw_client tw then (False, w)
      else case tw_calls_create tw (w_log w) (call_target phone) bid app of
             None \<Rightarrow> (False, w\<lparr>w_log := w_log w @ [CallAttempt (call_target phone) bid app None]\<rparr>)
           | Some sid \<Rightarrow>
               (True,
                \<lparr>w_db = (w_db w)\<lparr>call_requests :=
                    snd (update_one (\<lambda>r. cr_id r = resolve (call_requests (w_db w)) bid)
                           (set_initiated now sid) (call_requests (w_db w)))\<rparr>,
                 w_log = w_log w @ [CallAttempt (call_target phone) bid app (Some sid)]\<rparr>))"
  by (simp add: trigger_voice_call_def Let_def update_by_resolve split: option.splits)

lemma trigger_rel:
  "list_all2 same_status (call_requests (w_db w))
     (call_requests (w_db (snd (trigger_voice_call tw now w bid phone app))))"
proof -
  have r: "\<And>xs. list_all2 same_status xs xs"
    by (simp add: list_all2_refl same_status_def)
  have u: "\<And>P sid xs. list_all2 same_status xs (snd (update_one P (set_initiated now sid) xs))"
    by (rule update_one_rel) (simp_all add: same_status_def set_initiated_def)
  show ?thesis
    by (simp add: trigger_voice_call_eq r u split: option.splits)
qed


lemma find_booking_Some:
  assumes "find_booking crs i = Some b"
  shows "find_one (\<lambda>r. cr_id r = cr_id b) crs = Some b"
proof (cases "ObjectId i")
  case None
  with assms have f: "find_one (\<lambda>r. cr_id r = StrId i) crs = Some b"
    by (simp add: find_booking_def)
  then have "cr_id b = StrId i" using find_one_Some_holds by fastforce
  with f show ?thesis by simp
next
  case (Some oid)
  with assms have f: "find_one (\<lambda>r. cr_id r = OidId oid) crs = Some b"
    by (simp add: find_booking_def)
  then have "cr_id b = OidId oid" using find_one_Some_holds by fastforce
  with f show ?thesis by simp
qed

lemma send_status_sms_db [simp]: "w_db (send_status_sms tw w p s a u) = w_db w"
  by (simp add: send_status_sms_def)

lemma send_status_sms_log:
  "w_log (send_status_sms tw w p s a u) =
     w_log w @ (if tw_client tw \<and> truthy p then [StatusSms (sms_target p) s a u] else [])"
  by (simp add: send_status_sms_def)

lemma trigger_voice_call_log:
  "\<exists>res. w_log (snd (trigger_voice_call tw now w bid phone app)) =
     w_log w @ (if tw_client tw then [CallAttempt (call_target phone) bid app res] else [])"
  by (simp add: trigger_voice_call_eq split: option.splits)

text \<open>
  C10: for an id under which no CallRequest exists, neither as the ObjectId it parses to
  nor as the string itself, approve_booking and reject_booking return the redirect and
  leave the world as it was: no document is modified, and the log of attempted SMS and
  calls is unchanged.
\<close>

theorem approve_reject_not_found:
  assumes "\<forall>r\<in>set (call_requests (w_db w)).
             cr_id r \<noteq> StrId i \<and> (\<forall>oid. ObjectId i = Some oid \<longrightarrow> cr_id r \<noteq> OidId oid)"
  shows "approve_booking tw now w i = (Redirect ''/booking-data'', w)
       \<and> reject_booking tw w i = (Redirect ''/booking-data'', w)"
proof -
  have "find_booking (call_requests (w_db w)) i = None"
    using assms by (auto simp: find_booking_def find_one_None_iff split: option.splits)
  then show ?thesis by (simp add: approve_booking_def reject_booking_def)
qed

lemma call_time_later_Inr:
  "call_time_later now v = Inr l \<longleftrightarrow>
     (\<not> py_truthy v \<and> \<not> l) \<or> (\<exists>ct. v = PDateTime ct \<and> l = dt_less now ct)"
  by (cases v) (auto simp: call_time_later_def)

text \<open>
  C3 (amended): for every booking that approve_booking finds and whose stored
  \<open>call_time\<close> is absent, falsy or a \<open>datetime\<close>, the handler redirects, the booking's
  status is APPROVED afterwards, one status SMS is attempted exactly when the Twilio
  client is configured and the booking has a non-empty phone, and under the same two
  conditions exactly one call is attempted when \<open>call_time\<close> is no \<open>datetime\<close> after
  now, and none when it is one.
\<close>

theorem approve_booking_effects:
  assumes "find_booking (call_requests (w_db w)) i = Some b"
      and "\<not> py_truthy (cr_call_time b) \<or> (\<exists>ct. cr_call_time b = PDateTime ct)"
  shows "fst (approve_booking tw now w i) = Redirect ''/booking-data''
       \<and> (\<exists>b'. find_one (\<lambda>r. cr_id r = cr_id b)
                  (call_requests (w_db (snd (approve_booking tw now w i)))) = Some b'
              \<and> cr_status b' = Some ''APPROVED'')
       \<and> sms_count (w_log (snd (approve_booking tw now w i)))
           = sms_count (w_log w) + (if tw_client tw \<and> truthy (cr_phone b) then 1 else 0)
       \<and> call_count (w_log (snd (approve_booking tw now w i)))
           = call_count (w_log w)
             + (if tw_client tw \<and> truthy (cr_phone b)
                   \<and> \<not> (\<exists>ct. cr_call_time b = PDateTime ct \<and> dt_less now ct)
                then 1 else 0)"
proof -
  let ?later = "\<exists>ct. cr_call_time b = PDateTime ct \<and> dt_less now ct"
  have cl: "call_time_later now (cr_call_time b) = Inr ?later"
    using assms(2) by (auto simp: call_time_later_def split: pyval.splits)
  let ?crs = "call_requests (w_db w)"
  let ?P = "\<lambda>r. cr_id r = cr_id b"
  let ?w1 = "w\<lparr>w_db := (w_db w)\<lparr>call_requests :=
               snd (update_one ?P (set_status ''APPROVED'') ?crs)\<rparr>\<rparr>"
  let ?w2 = "send_status_sms tw ?w1 (cr_phone b) ''APPROVED'' (booking_app_name b)
               (booking_user_name b)"
  let ?t = "snd (trigger_voice_call tw now ?w2 (id_str (cr_id b)) (cr_phone b)
               (booking_app_name b))"
  let ?w3 = "if ?later then ?w2 else if truthy (cr_phone b) then ?t else ?w2"
  have ap: "approve_booking tw now w i = (Redirect ''/booking-data'', ?w3)"
    using assms(1) cl by (simp add: approve_booking_def Let_def)
  have f0: "find_one ?P ?crs = Some b"
    using assms(1) by (rule find_booking_Some)
  have f1: "find_one ?P (call_requests (w_db ?w2)) = Some (set_status ''APPROVED'' b)"
    using find_one_update_same [OF f0, of "set_status ''APPROVED''"]
    by (simp add: set_status_def)
  have st: "cr_status (set_status ''APPROVED'' b) = Some ''APPROVED''"
    "cr_id (set_status ''APPROVED'' b) = cr_id b"
    by (simp_all add: set_status_def)
  obtain c where c: "find_one ?P (call_requests (w_db ?t)) = Some c"
      "same_status (set_status ''APPROVED'' b) c"
    using find_one_rel [OF trigger_rel [where w = ?w2 and tw = tw and now = now
          and bid = "id_str (cr_id b)" and phone = "cr_phone b" and app = "booking_app_name b"]
        _ f1]
    by (auto simp: same_status_def)
  have status: "\<exists>b'. find_one ?P (call_requests (w_db ?w3)) = Some b'
                   \<and> cr_status b' = Some ''APPROVED''"
    using f1 c st by (auto simp: same_status_def)
  have l2: "w_log ?w2 = w_log w @ (if tw_client tw \<and> truthy (cr_phone b)
              then [StatusSms (sms_target (cr_phone b)) ''APPROVED'' (booking_app_name b)
                      (booking_user_name b)] else [])"
    by (simp add: send_status_sms_log)
  obtain res where lt: "w_log ?t = w_log ?w2
      @ (if tw_client tw then [CallAttempt (call_target (cr_phone b)) (id_str (cr_id b))
                                 (booking_app_name b) res] else [])"
    using trigger_voice_call_log by blast
  have sms: "sms_count (w_log ?w3)
           = sms_count (w_log w) + (if tw_client tw \<and> truthy (cr_phone b) then 1 else 0)"
    using l2 lt by (simp add: sms_count_def)
  have calls: "call_count (w_log ?w3) = call_count (w_log w)
             + (if tw_client tw \<and> truthy (cr_phone b) \<and> \<not> ?later then 1 else 0)"
    using l2 lt by (simp add: call_count_def)
  from ap status sms calls show ?thesis by simp
qed

lemma find_booking_b1: "find_booking (call_requests (w_db w0)) ''b1'' = Some b_pending"
  by (simp add: find_booking_def ObjectId_def w0_def empty_db_def find_one_def b_pending_def
      blank_request_def)

lemma find_booking_b2: "find_booking (call_requests (w_db w0)) ''b2'' = Some b_nophone"
  by (simp add: find_booking_def ObjectId_def w0_def empty_db_def find_one_def b_pending_def
      b_nophone_def blank_request_def)

theorem approve_reject_not_found_witness:
  "approve_booking tw_ok now0 w0 ''b9'' = (Redirect ''/booking-data'', w0)
   \<and> reject_booking tw_ok w0 ''b9'' = (Redirect ''/booking-data'', w0)"
proof -
  have h: "\<forall>r\<in>set (call_requests (w_db w0)).
             cr_id r \<noteq> StrId ''b9'' \<and> (\<forall>oid. ObjectId ''b9'' = Some oid \<longrightarrow> cr_id r \<noteq> OidId oid)"
    by (simp add: w0_def empty_db_def b_pending_def b_nophone_def blank_request_def ObjectId_def)
  from approve_reject_not_found [OF h] show ?thesis .
qed

text \<open>
  C3 (as stated in the specification): approving an existing PENDING booking sends an SMS
  and, with no \<open>call_time\<close>, places exactly one call. The booking \<open>b_nophone\<close> is PENDING
  and has no \<open>call_time\<close> and no phone; with the Twilio client configured, approving it
  attempts no SMS and no call.
\<close>

theorem approve_without_phone_sends_nothing:
  "cr_status b_nophone = Some ''PENDING'' \<and> cr_call_time b_nophone = PNone
   \<and> fst (approve_booking tw_ok now0 w0 ''b2'') = Redirect ''/booking-data''
   \<and> w_log (snd (approve_booking tw_ok now0 w0 ''b2'')) = []"
  using find_booking_b2
  by (simp add: approve_booking_def Let_def send_status_sms_def truthy_def)
     (simp add: b_nophone_def blank_request_def w0_def call_time_later_def)

theorem approve_booking_effects_witness:
  "find_booking (call_requests (w_db w0)) ''b1'' = Some b_pending
   \<and> cr_call_time b_pending = PNone
   \<and> fst (approve_booking tw_ok now0 w0 ''b1'') = Redirect ''/booking-data''
   \<and> sms_count (w_log (snd (approve_booking tw_ok now0 w0 ''b1''))) = 1
   \<and> call_count (w_log (snd (approve_booking tw_ok now0 w0 ''b1''))) = 1"
proof -
  have c: "cr_call_time b_pending = PNone"
    by (simp add: b_pending_def blank_request_def)
  then have c': "\<not> py_truthy (cr_call_time b_pending)
                 \<or> (\<exists>ct. cr_call_time b_pending = PDateTime ct)" by simp
  have v: "tw_client tw_ok" "truthy (cr_phone b_pending)"
    "sms_count (w_log w0) = 0" "call_count (w_log w0) = 0"
    by (simp_all add: tw_ok_def truthy_def b_pending_def blank_request_def
        w0_def sms_count_def call_count_def)
  from approve_booking_effects [OF find_booking_b1 c', of tw_ok now0] v find_booking_b1 c
  show ?thesis by simp
qed

text \<open>
  What approve_booking does with a stored \<open>call_time\<close> that is truthy and no
  \<open>datetime\<close>: the status update and the SMS happen, then the comparison raises, the
  answer is 500 and no call is attempted.
\<close>

lemma approve_booking_type_error:
  assumes "find_booking (call_requests (w_db w)) i = Some b"
      and "py_truthy (cr_call_time b)" and "\<forall>ct. cr_call_time b \<noteq> PDateTime ct"
  shows "fst (approve_booking tw now w i) = Json 500 [(''type'', ''TypeError'')]
       \<and> find_one (\<lambda>r. cr_id r = cr_id b)
            (call_requests (w_db (snd (approve_booking tw now w i))))
           = Some (set_status ''APPROVED'' b)
       \<and> w_log (snd (approve_booking tw now w i))
           = w_log w @ (if tw_client tw \<and> truthy (cr_phone b)
                        then [StatusSms (sms_target (cr_phone b)) ''APPROVED''
                                (booking_app_name b) (booking_user_name b)]
                        else [])"
proof -
  have f0: "find_one (\<lambda>r. cr_id r = cr_id b) (call_requests (w_db w)) = Some b"
    using assms(1) by (rule find_booking_Some)
  have f1: "find_one (\<lambda>r. cr_id r = cr_id b)
              (snd (update_one (\<lambda>r. cr_id r = cr_id b) (set_status ''APPROVED'')
                      (call_requests (w_db w))))
            = Some (set_status ''APPROVED'' b)"
    using find_one_update_same [OF f0, of "set_status ''APPROVED''"]
    by (simp add: set_status_def)
  have cl: "call_time_later now (cr_call_time b) = Inl TypeError"
    using assms(2,3) by (auto simp: call_time_later_def split: pyval.splits)
  show ?thesis
    using assms(1) cl f1 by (simp add: approve_booking_def Let_def send_status_sms_log)
qed

lemma approve_text_call_time:
  "find_booking (call_requests (w_db w_text)) ''b3'' = Some b_text
   \<and> approve_booking tw_ok now0 w_text ''b3'' =
       (Json 500 [(''type'', ''TypeError'')],
        \<lparr>w_db = empty_db\<lparr>call_requests := [b_text\<lparr>cr_status := Some ''APPROVED''\<rparr>]\<rparr>,
         w_log = [StatusSms ''+919876543210'' ''APPROVED'' ''Hotel'' ''Asha'']\<rparr>)"
  by code_simp


lemma evolves_refl: "list_all2 evolves xs xs"
  by (simp add: list_all2_refl evolves_def)

lemma evolves_trans:
  "list_all2 evolves xs ys \<Longrightarrow> list_all2 evolves ys zs \<Longrightarrow> list_all2 evolves xs zs"
  using list_all2_trans [of evolves evolves evolves xs ys zs] by (auto simp: evolves_def)

lemma evolves_ids: "list_all2 evolves xs ys \<Longrightarrow> map cr_id ys = map cr_id xs"
  by (induction xs ys rule: list_all2_induct) (auto simp: evolves_def)

lemma evolves_initiated:
  assumes "list_all2 evolves xs ys"
      and "\<forall>q\<in>set xs. cr_id q = X \<longrightarrow> cr_call_initiated q = Some True"
  shows "\<forall>q\<in>set ys. cr_id q = X \<longrightarrow> cr_call_initiated q = Some True"
  using assms by (induction xs ys rule: list_all2_induct) (auto simp: evolves_def)

lemma update_evolves_initiated:
  "list_all2 evolves xs (snd (update_one P (set_initiated now sid) xs))"
  by (rule update_one_rel) (simp_all add: evolves_def set_initiated_def)

lemma update_evolves_error:
  "list_all2 evolves xs (snd (update_one P set_call_error xs))"
  by (rule update_one_rel) (simp_all add: evolves_def set_call_error_def)

lemma process_call_eq:
  "process_call tw now c w =
     (if \<not> tw_client tw
      then w\<lparr>w_db := (w_db w)\<lparr>call_requests :=
             snd (update_one (\<lambda>r. cr_id r = cr_id c) set_call_error (call_requests (w_db w)))\<rparr>\<rparr>
      else case tw_calls_create tw (w_log w) (call_target (cr_phone c)) (id_str (cr_id c))
                  (booking_app_name c) of
             None \<Rightarrow>
               \<lparr>w_db = (w_db w)\<lparr>call_requests :=
                   snd (update_one (\<lambda>r. cr_id r = cr_id c) set_call_error
                          (call_requests (w_db w)))\<rparr>,
                w_log = w_log w @ [CallAttempt (call_target (cr_phone c)) (id_str (cr_id c))
                                     (booking_app_name c) None]\<rparr>
           | Some sid \<Rightarrow>
               \<lparr>w_db = (w_db w)\<lparr>call_requests :=
                   snd (update_one
                          (\<lambda>r. cr_id r = resolve (call_requests (w_db w)) (id_str (cr_id c)))
                          (set_initiated now sid) (call_requests (w_db w)))\<rparr>,
                w_log = w_log w @ [CallAttempt (call_target (cr_phone c)) (id_str (cr_id c))
                                     (booking_app_name c) (Some sid)]\<rparr>)"
  by (simp add: process_call_def trigger_voice_call_eq Let_def split: option.splits)

lemma process_call_evolves:
  "list_all2 evolves (call_requests (w_db w)) (call_requests (w_db (process_call tw now c w)))"
  by (simp add: process_call_eq update_evolves_initiated update_evolves_error
      split: option.splits)

lemma process_calls_evolves:
  "list_all2 evolves (call_requests (w_db w)) (call_requests (w_db (process_calls tw now cs w)))"
proof (induction cs arbitrary: w)
  case Nil
  show ?case by (simp add: evolves_refl)
next
  case (Cons c cs)
  show ?case
    using evolves_trans [OF process_call_evolves Cons.IH] by simp
qed

lemma process_calls_append:
  "process_calls tw now (xs @ ys) w = process_calls tw now ys (process_calls tw now xs w)"
  by (induction xs arbitrary: w) simp_all

lemma process_call_other:
  "id_str (cr_id c) \<noteq> bid \<Longrightarrow>
     calls_for bid (w_log (process_call tw now c w)) = calls_for bid (w_log w)"
  by (simp add: process_call_eq calls_for_def split: option.splits)

lemma process_calls_other:
  "\<forall>c\<in>set cs. id_str (cr_id c) \<noteq> bid \<Longrightarrow>
     calls_for bid (w_log (process_calls tw now cs w)) = calls_for bid (w_log w)"
  by (induction cs arbitrary: w) (simp_all add: process_call_other)

lemma update_one_hits:
  assumes "distinct (map cr_id xs)" and "\<And>x. cr_id (f x) = cr_id x" and "\<And>x. Q (f x)"
      and "q \<in> set (snd (update_one (\<lambda>r. cr_id r = X) f xs))" and "cr_id q = X"
  shows "Q q"
  using assms(1,4)
proof (induction xs)
  case Nil
  then show ?case by simp
next
  case (Cons a xs)
  show ?case
  proof (cases "cr_id a = X")
    case True
    with Cons.prems(2) have "q = f a \<or> q \<in> set xs" by simp
    moreover have "q \<notin> set xs"
    proof
      assume "q \<in> set xs"
      then have "cr_id q \<in> cr_id ` set xs" by (rule imageI)
      with Cons.prems(1) True assms(5) show False by simp
    qed
    ultimately show ?thesis using assms(3) by blast
  next
    case False
    with Cons.prems(2) have "q = a \<or> q \<in> set (snd (update_one (\<lambda>r. cr_id r = X) f xs))"
      by (auto split: prod.splits)
    with False assms(5) Cons.IH Cons.prems(1) show ?thesis by auto
  qed
qed

lemma ids_wf_cong: "map cr_id ys = map cr_id xs \<Longrightarrow> ids_wf ys = ids_wf xs"
proof -
  assume e: "map cr_id ys = map cr_id xs"
  have a: "\<And>zs. map (\<lambda>r. id_str (cr_id r)) zs = map id_str (map cr_id zs)" by simp
  have b: "\<And>zs c. list_all (\<lambda>r. resolve c (id_str (cr_id r)) = cr_id r) zs
               = list_all (\<lambda>i. resolve c (id_str i) = i) (map cr_id zs)"
    by (simp add: list_all_iff)
  have c: "\<And>bid. resolve ys bid = resolve xs bid"
    by (simp only: resolve_def e)
  show ?thesis
    unfolding ids_wf_def a b using e c by simp
qed

lemma ids_wf_distinct: "ids_wf xs \<Longrightarrow> distinct (map cr_id xs)"
proof -
  assume "ids_wf xs"
  then have "distinct (map id_str (map cr_id xs))"
    by (simp add: ids_wf_def comp_def)
  then show ?thesis by (simp only: distinct_map)
qed

lemma ids_wf_resolve:
  assumes "ids_wf xs" and "r \<in> set xs"
  shows "resolve xs (id_str (cr_id r)) = cr_id r"
  using assms by (simp add: ids_wf_def list_all_iff)

lemma ids_wf_inj:
  assumes "ids_wf xs" and "a \<in> set xs" and "b \<in> set xs"
      and "id_str (cr_id a) = id_str (cr_id b)"
  shows "cr_id a = cr_id b"
proof -
  from assms(1) have "distinct (map id_str (map cr_id xs))"
    by (simp add: ids_wf_def comp_def)
  then have "inj_on id_str (set (map cr_id xs))"
    by (simp only: distinct_map)
  moreover have "cr_id a \<in> set (map cr_id xs)" "cr_id b \<in> set (map cr_id xs)"
    using assms(2,3) by simp_all
  ultimately show ?thesis using assms(4) by (meson inj_onD)
qed

lemma due_split:
  assumes "ids_wf xs" and "r \<in> set xs" and "P r"
  shows "\<exists>pre post. filter P xs = pre @ r # post
           \<and> (\<forall>c\<in>set pre. id_str (cr_id c) \<noteq> id_str (cr_id r))
           \<and> (\<forall>c\<in>set post. id_str (cr_id c) \<noteq> id_str (cr_id r))"
proof -
  from assms(1) have "distinct (map (\<lambda>r. id_str (cr_id r)) xs)"
    by (simp add: ids_wf_def)
  then have d: "distinct (map (\<lambda>r. id_str (cr_id r)) (filter P xs))"
    by (rule distinct_map_filter)
  from assms(2,3) have "r \<in> set (filter P xs)" by simp
  then obtain pre post where sp: "filter P xs = pre @ r # post"
    by (auto dest: split_list)
  from d sp have "distinct (map (\<lambda>r. id_str (cr_id r)) (pre @ r # post))" by simp
  then have "(\<forall>c\<in>set pre. id_str (cr_id c) \<noteq> id_str (cr_id r))
           \<and> (\<forall>c\<in>set post. id_str (cr_id c) \<noteq> id_str (cr_id r))"
    by (auto simp: image_iff)
  with sp show ?thesis by blast
qed

lemma process_call_step:
  assumes tw: "tw_client tw" and wf: "ids_wf (call_requests (w_db w))"
      and q: "q \<in> set (call_requests (w_db w))" and qc: "cr_id q = cr_id c"
  shows "\<exists>t res. w_log (process_call tw now c w)
             = w_log w @ [CallAttempt t (id_str (cr_id c)) (booking_app_name c) res]
           \<and> (res \<noteq> None \<longrightarrow>
                (\<forall>x\<in>set (call_requests (w_db (process_call tw now c w))).
                    cr_id x = cr_id c \<longrightarrow> cr_call_initiated x = Some True))"
proof (cases "tw_calls_create tw (w_log w) (call_target (cr_phone c)) (id_str (cr_id c))
                (booking_app_name c)")
  case None
  with tw have "w_log (process_call tw now c w)
      = w_log w @ [CallAttempt (call_target (cr_phone c)) (id_str (cr_id c))
                     (booking_app_name c) None]"
    by (simp add: process_call_eq)
  then show ?thesis by blast
next
  case (Some sid)
  let ?crs = "call_requests (w_db w)"
  have rs: "resolve ?crs (id_str (cr_id c)) = cr_id c"
    using ids_wf_resolve [OF wf q] qc by simp
  from tw Some rs have l: "w_log (process_call tw now c w)
      = w_log w @ [CallAttempt (call_target (cr_phone c)) (id_str (cr_id c))
                     (booking_app_name c) (Some sid)]"
    and d: "call_requests (w_db (process_call tw now c w))
      = snd (update_one (\<lambda>r. cr_id r = cr_id c) (set_initiated now sid) ?crs)"
    by (simp_all add: process_call_eq)
  have "\<forall>x\<in>set (call_requests (w_db (process_call tw now c w))).
          cr_id x = cr_id c \<longrightarrow> cr_call_initiated x = Some True"
  proof (intro ballI impI)
    fix x
    assume "x \<in> set (call_requests (w_db (process_call tw now c w)))" and xc: "cr_id x = cr_id c"
    then have xin: "x \<in> set (snd (update_one (\<lambda>r. cr_id r = cr_id c) (set_initiated now sid) ?crs))"
      using d by simp
    show "cr_call_initiated x = Some True"
      by (rule update_one_hits [OF ids_wf_distinct [OF wf], where f = "set_initiated now sid"
            and Q = "\<lambda>x. cr_call_initiated x = Some True", OF _ _ xin xc])
         (simp_all add: set_initiated_def)
  qed
  with l show ?thesis by blast
qed

lemma update_one_map:
  "(\<And>x. g (f x) = g x) \<Longrightarrow> map g (snd (update_one P f xs)) = map g xs"
  by (induction xs) (auto split: prod.splits)

lemma process_call_off:
  assumes "\<not> tw_client tw"
  shows "w_log (process_call tw now c w) = w_log w"
    and "map cr_call_initiated (call_requests (w_db (process_call tw now c w)))
         = map cr_call_initiated (call_requests (w_db w))"
  using assms by (simp_all add: process_call_eq update_one_map set_call_error_def)

lemma process_calls_off:
  assumes "\<not> tw_client tw"
  shows "w_log (process_calls tw now cs w) = w_log w
       \<and> map cr_call_initiated (call_requests (w_db (process_calls tw now cs w)))
           = map cr_call_initiated (call_requests (w_db w))"
  by (induction cs arbitrary: w) (simp_all add: process_call_off [OF assms])

text \<open>
  C2 (amended): with a configured Twilio client and a collection whose ids are well
  formed, a tick over a store that holds a due request (APPROVED, \<open>call_time\<close> not after
  now, \<open>call_initiated\<close> not true) attempts exactly one call for that request; when the
  provider places it, the request has \<open>call_initiated = true\<close> after the tick, and a
  tick that follows attempts no call for that request. Without a Twilio client a tick
  over any store attempts nothing (the log of attempts is as before) and leaves
  \<open>call_initiated\<close> of every request as it was.
\<close>

theorem poller_calls_once:
  "(tw_client tw \<longrightarrow> ids_wf (call_requests (w_db w)) \<longrightarrow> r \<in> set (call_requests (w_db w))
      \<longrightarrow> is_due now r \<longrightarrow>
      (\<exists>t res.
           calls_for (id_str (cr_id r)) (w_log (check_scheduled_calls tw now w))
             = calls_for (id_str (cr_id r)) (w_log w)
               @ [CallAttempt t (id_str (cr_id r)) (booking_app_name r) res]
         \<and> (res \<noteq> None \<longrightarrow>
              (\<exists>q. find_one (\<lambda>x. cr_id x = cr_id r)
                      (call_requests (w_db (check_scheduled_calls tw now w))) = Some q
                   \<and> cr_call_initiated q = Some True)
            \<and> calls_for (id_str (cr_id r))
                 (w_log (check_scheduled_calls tw now' (check_scheduled_calls tw now w)))
               = calls_for (id_str (cr_id r)) (w_log (check_scheduled_calls tw now w)))))
   \<and> (\<not> tw_client tw \<longrightarrow>
        w_log (check_scheduled_calls tw now w) = w_log w
      \<and> map cr_call_initiated (call_requests (w_db (check_scheduled_calls tw now w)))
          = map cr_call_initiated (call_requests (w_db w)))"
proof (intro conjI impI)
  assume "\<not> tw_client tw"
  then show "w_log (check_scheduled_calls tw now w) = w_log w"
    and "map cr_call_initiated (call_requests (w_db (check_scheduled_calls tw now w)))
          = map cr_call_initiated (call_requests (w_db w))"
    by (simp_all add: check_scheduled_calls_def process_calls_off)
next
  assume tw: "tw_client tw" and wf: "ids_wf (call_requests (w_db w))"
     and rin: "r \<in> set (call_requests (w_db w))" and due: "is_due now r"
  let ?bid = "id_str (cr_id r)"
  let ?crs = "call_requests (w_db w)"
  obtain pre post where sp: "filter (is_due now) ?crs = pre @ r # post"
    and npre: "\<forall>c\<in>set pre. id_str (cr_id c) \<noteq> ?bid"
    and npost: "\<forall>c\<in>set post. id_str (cr_id c) \<noteq> ?bid"
    using due_split [where P = "is_due now", OF wf rin due] by blast
  let ?wa = "process_calls tw now pre w"
  let ?wb = "process_call tw now r ?wa"
  let ?w1 = "process_calls tw now post ?wb"
  have w1: "check_scheduled_calls tw now w = ?w1"
    by (simp add: check_scheduled_calls_def find_many_def sp process_calls_append)
  have ida: "map cr_id (call_requests (w_db ?wa)) = map cr_id ?crs"
    by (rule evolves_ids [OF process_calls_evolves])
  have wfa: "ids_wf (call_requests (w_db ?wa))"
    using ids_wf_cong [OF ida] wf by simp
  have "cr_id r \<in> set (map cr_id (call_requests (w_db ?wa)))"
    using rin ida by simp
  then obtain q where q: "q \<in> set (call_requests (w_db ?wa))" "cr_id q = cr_id r"
    by auto
  obtain t res where lb: "w_log ?wb = w_log ?wa @ [CallAttempt t ?bid (booking_app_name r) res]"
    and ib: "res \<noteq> None \<longrightarrow> (\<forall>x\<in>set (call_requests (w_db ?wb)).
                 cr_id x = cr_id r \<longrightarrow> cr_call_initiated x = Some True)"
    using process_call_step [OF tw wfa q, of now] by blast
  have la: "calls_for ?bid (w_log ?wa) = calls_for ?bid (w_log w)"
    by (rule process_calls_other [OF npre])
  have l1: "calls_for ?bid (w_log ?w1) = calls_for ?bid (w_log ?wb)"
    by (rule process_calls_other [OF npost])
  have log: "calls_for ?bid (w_log ?w1)
      = calls_for ?bid (w_log w) @ [CallAttempt t ?bid (booking_app_name r) res]"
    using l1 lb la by (simp add: calls_for_def)
  have id1: "map cr_id (call_requests (w_db ?w1)) = map cr_id ?crs"
    using evolves_ids [OF process_calls_evolves [where w = ?wb and tw = tw and now = now
          and cs = post]]
      evolves_ids [OF process_call_evolves [where w = ?wa and tw = tw and now = now and c = r]]
      ida by simp
  have wf1: "ids_wf (call_requests (w_db ?w1))"
    using ids_wf_cong [OF id1] wf by simp
  have succ: "(\<exists>q. find_one (\<lambda>x. cr_id x = cr_id r) (call_requests (w_db ?w1)) = Some q
                   \<and> cr_call_initiated q = Some True)
            \<and> calls_for ?bid (w_log (check_scheduled_calls tw now' ?w1))
               = calls_for ?bid (w_log ?w1)" if ok: "res \<noteq> None"
  proof
    from ok ib have "\<forall>x\<in>set (call_requests (w_db ?wb)).
                 cr_id x = cr_id r \<longrightarrow> cr_call_initiated x = Some True" by simp
    then have i1: "\<forall>x\<in>set (call_requests (w_db ?w1)).
                 cr_id x = cr_id r \<longrightarrow> cr_call_initiated x = Some True"
      by (rule evolves_initiated [OF process_calls_evolves])
    have "cr_id r \<in> set (map cr_id (call_requests (w_db ?w1)))"
      using rin id1 by simp
    then have "find_one (\<lambda>x. cr_id x = cr_id r) (call_requests (w_db ?w1)) \<noteq> None"
      by (auto simp: find_one_None_iff)
    then obtain q' where f: "find_one (\<lambda>x. cr_id x = cr_id r) (call_requests (w_db ?w1)) = Some q'"
      by blast
    from find_one_Some_holds [OF f] i1 have "cr_call_initiated q' = Some True" by blast
    with f show "\<exists>q. find_one (\<lambda>x. cr_id x = cr_id r) (call_requests (w_db ?w1)) = Some q
                   \<and> cr_call_initiated q = Some True" by blast
    obtain r1 where r1: "r1 \<in> set (call_requests (w_db ?w1))" "cr_id r1 = cr_id r"
      using \<open>cr_id r \<in> set (map cr_id (call_requests (w_db ?w1)))\<close> by auto
    have "\<forall>c\<in>set (find_many (is_due now') (call_requests (w_db ?w1))). id_str (cr_id c) \<noteq> ?bid"
    proof
      fix c
      assume "c \<in> set (find_many (is_due now') (call_requests (w_db ?w1)))"
      then have c: "c \<in> set (call_requests (w_db ?w1))" "is_due now' c"
        by (simp_all add: find_many_def)
      show "id_str (cr_id c) \<noteq> ?bid"
      proof
        assume "id_str (cr_id c) = ?bid"
        then have "id_str (cr_id c) = id_str (cr_id r1)" using r1 by simp
        from ids_wf_inj [OF wf1 c(1) r1(1) this] r1 have "cr_id c = cr_id r" by simp
        with i1 c(1) have "cr_call_initiated c = Some True" by blast
        with c(2) show False by (simp add: is_due_def)
      qed
    qed
    then show "calls_for ?bid (w_log (check_scheduled_calls tw now' ?w1))
               = calls_for ?bid (w_log ?w1)"
      unfolding check_scheduled_calls_def by (rule process_calls_other)
  qed
  from log succ show "\<exists>t res.
           calls_for (id_str (cr_id r)) (w_log (check_scheduled_calls tw now w))
             = calls_for (id_str (cr_id r)) (w_log w)
               @ [CallAttempt t (id_str (cr_id r)) (booking_app_name r) res]
         \<and> (res \<noteq> None \<longrightarrow>
              (\<exists>q. find_one (\<lambda>x. cr_id x = cr_id r)
                      (call_requests (w_db (check_scheduled_calls tw now w))) = Some q
                   \<and> cr_call_initiated q = Some True)
            \<and> calls_for (id_str (cr_id r))
                 (w_log (check_scheduled_calls tw now' (check_scheduled_calls tw now w)))
               = calls_for (id_str (cr_id r)) (w_log (check_scheduled_calls tw now w)))"
    unfolding w1 by blast
qed

lemma length_hex_of_nat [simp]: "length (hex_of_nat k n) = k"
  by (induction k arbitrary: n) simp_all

lemma hex_val_digit: "d < 16 \<Longrightarrow> hex_val (hex_digit d) = d"
  by (simp add: hex_val_def hex_digit_def Let_def)

lemma is_hex_digit: "d < 16 \<Longrightarrow> is_hex (hex_digit d)"
  by (simp add: is_hex_def hex_digit_def Let_def)

lemma all_hex_of_nat: "list_all is_hex (hex_of_nat k n)"
  by (induction k arbitrary: n) (simp_all add: is_hex_digit)

lemma nat_of_hex_of_nat: "nat_of_hex (hex_of_nat k n) = n mod 16 ^ k"
proof (induction k arbitrary: n)
  case 0
  show ?case by (simp add: nat_of_hex_def)
next
  case (Suc k)
  have "nat_of_hex (hex_of_nat (Suc k) n)
      = 16 * nat_of_hex (hex_of_nat k (n div 16)) + hex_val (hex_digit (n mod 16))"
    by (simp add: nat_of_hex_def)
  also have "\<dots> = 16 * ((n div 16) mod 16 ^ k) + n mod 16"
    by (simp add: Suc.IH hex_val_digit)
  also have "\<dots> = n mod 16 ^ Suc k"
    by (simp add: mod_mult2_eq)
  finally show ?case .
qed

lemma ObjectId_oid_str: "ObjectId (oid_str w) = Some w"
proof -
  have "unat w < 2 ^ 96"
    using unsigned_less [of w] by simp
  then have "unat w mod 16 ^ 24 = unat w" by simp
  then show ?thesis
    by (simp add: ObjectId_def oid_str_def all_hex_of_nat nat_of_hex_of_nat)
qed

lemma oid_str_inj: "oid_str a = oid_str b \<Longrightarrow> a = b"
  by (metis ObjectId_oid_str option.inject)

lemma id_str_OidId_inj:
  "id_str (OidId a) = id_str (OidId b) \<Longrightarrow> a = b"
  by (simp add: oid_str_inj)

lemma ids_wf_plain:
  assumes d: "distinct (map cr_id xs)"
      and s: "\<forall>r\<in>set xs. \<forall>s. cr_id r = StrId s \<longrightarrow> ObjectId s = None"
  shows "ids_wf xs"
proof -
  have inj: "inj_on id_str (set (map cr_id xs))"
  proof (rule inj_onI)
    fix a b
    assume a: "a \<in> set (map cr_id xs)" and b: "b \<in> set (map cr_id xs)"
       and e: "id_str a = id_str b"
    show "a = b"
    proof (cases a)
      case (OidId u)
      show ?thesis
      proof (cases b)
        case (OidId v)
        with \<open>a = OidId u\<close> e show ?thesis by (simp add: oid_str_inj)
      next
        case (StrId t)
        with b s have "ObjectId t = None" by auto
        moreover from StrId \<open>a = OidId u\<close> e have "ObjectId t = Some u"
          using ObjectId_oid_str [of u] by simp
        ultimately show ?thesis by simp
      qed
    next
      case (StrId t)
      show ?thesis
      proof (cases b)
        case (OidId v)
        from a s StrId have "ObjectId t = None" by auto
        moreover from OidId StrId e have "ObjectId t = Some v"
          using ObjectId_oid_str [of v] by simp
        ultimately show ?thesis by simp
      next
        case (StrId t')
        with \<open>a = StrId t\<close> e show ?thesis by simp
      qed
    qed
  qed
  have "distinct (map id_str (map cr_id xs))"
    using d inj by (simp only: distinct_map)
  then have dd: "distinct (map (\<lambda>r. id_str (cr_id r)) xs)"
    by (simp add: comp_def)
  have "\<forall>r\<in>set xs. resolve xs (id_str (cr_id r)) = cr_id r"
  proof
    fix r
    assume r: "r \<in> set xs"
    show "resolve xs (id_str (cr_id r)) = cr_id r"
    proof (cases "cr_id r")
      case (OidId u)
      with r have "OidId u \<in> set (map cr_id xs)" by force
      with OidId show ?thesis by (simp add: resolve_def ObjectId_oid_str)
    next
      case (StrId t)
      with r s have "ObjectId t = None" by auto
      with StrId show ?thesis by (simp add: resolve_def)
    qed
  qed
  with dd show ?thesis by (simp add: ids_wf_def list_all_iff)
qed

lemma b_due_is_due: "is_due now0 b_due"
  by (simp add: is_due_def b_due_def blank_request_def now0_def dt_le_def dt_less_def dt_key_def)

lemma w_due_ids_wf: "ids_wf (call_requests (w_db w_due))"
  by (rule ids_wf_plain)
     (simp_all add: w_due_def empty_db_def b_due_def b_nophone_def blank_request_def ObjectId_def)

lemma w_due_pending: "find_many (is_due now0) (call_requests (w_db w_due)) = [b_due]"
  using b_due_is_due
  by (simp add: find_many_def w_due_def empty_db_def)
     (simp add: is_due_def b_nophone_def blank_request_def)

text \<open>
  C2 (as stated in the specification): a poller tick over a store with an APPROVED
  request that is due and not yet initiated attempts exactly one call for it. Without a
  Twilio client \<open>trigger_voice_call\<close> returns before any attempt: the tick over \<open>w_due\<close>,
  where \<open>b_due\<close> is due, attempts nothing.
\<close>

theorem poller_no_twilio_no_call:
  "is_due now0 b_due \<and> b_due \<in> set (call_requests (w_db w_due))
   \<and> w_log (check_scheduled_calls tw_off now0 w_due) = []
   \<and> map cr_call_initiated (call_requests (w_db (check_scheduled_calls tw_off now0 w_due)))
       = [None, None]"
  using b_due_is_due
  by (simp add: check_scheduled_calls_def w_due_pending process_call_eq)
     (simp add: tw_off_def w_due_def empty_db_def b_due_def b_nophone_def blank_request_def
        set_call_error_def)

lemma tick1: "check_scheduled_calls tw_ok now0 w_due =
   \<lparr>w_db = empty_db\<lparr>call_requests := [b_nophone, set_initiated now0 ''CA01'' b_due]\<rparr>,
    w_log = [CallAttempt ''+919876543210'' (id_str (cr_id b_due)) ''Hotel'' (Some ''CA01'')]\<rparr>"
proof -
  have r: "resolve (call_requests (w_db w_due)) (id_str (cr_id b_due)) = cr_id b_due"
    by (rule ids_wf_resolve [OF w_due_ids_wf]) (simp add: w_due_def empty_db_def)
  have t: "call_target (cr_phone b_due) = ''+919876543210''"
    by (simp add: b_due_def blank_request_def call_target_def py_str_def is_digit_def
        startswith_def Let_def)
  have a: "booking_app_name b_due = ''Hotel''"
    by (simp add: b_due_def blank_request_def booking_app_name_def)
  have n: "cr_id b_nophone \<noteq> cr_id b_due"
    by (simp add: b_due_def b_nophone_def blank_request_def)
  from r have r': "resolve [b_nophone, b_due] (id_str (cr_id b_due)) = cr_id b_due"
    by (simp add: w_due_def empty_db_def)
  show ?thesis
    by (simp add: check_scheduled_calls_def w_due_pending process_call_eq)
       (simp add: tw_ok_def w_due_def empty_db_def n r' t a)
qed

lemma tick2: "find_many (is_due now0)
    (call_requests (w_db (check_scheduled_calls tw_ok now0 w_due))) = []"
  by (simp add: tick1 find_many_def empty_db_def)
     (simp add: is_due_def set_initiated_def b_nophone_def blank_request_def)

theorem poller_calls_once_witness:
  "tw_client tw_ok \<and> ids_wf (call_requests (w_db w_due))
   \<and> b_due \<in> set (call_requests (w_db w_due)) \<and> is_due now0 b_due
   \<and> calls_for (id_str (cr_id b_due)) (w_log (check_scheduled_calls tw_ok now0 w_due))
       = [CallAttempt ''+919876543210'' (id_str (cr_id b_due)) ''Hotel'' (Some ''CA01'')]
   \<and> map cr_call_initiated (call_requests (w_db (check_scheduled_calls tw_ok now0 w_due)))
       = [None, Some True]
   \<and> calls_for (id_str (cr_id b_due))
        (w_log (check_scheduled_calls tw_ok now0 (check_scheduled_calls tw_ok now0 w_due)))
       = [CallAttempt ''+919876543210'' (id_str (cr_id b_due)) ''Hotel'' (Some ''CA01'')]
   \<and> \<not> tw_client tw_off
   \<and> w_log (check_scheduled_calls tw_off now0 w_due) = w_log w_due
   \<and> map cr_call_initiated (call_requests (w_db (check_scheduled_calls tw_off now0 w_due)))
       = map cr_call_initiated (call_requests (w_db w_due))"
proof -
  have h1: "tw_client tw_ok" by (simp add: tw_ok_def)
  have h2: "\<not> tw_client tw_off" by (simp add: tw_off_def)
  have h3: "b_due \<in> set (call_requests (w_db w_due))" by (simp add: w_due_def empty_db_def)
  note t = poller_calls_once [where tw = tw_ok and w = w_due and r = b_due and now = now0
      and now' = now0]
  note u = poller_calls_once [where tw = tw_off and w = w_due and r = b_due and now = now0
      and now' = now0]
  have e1: "calls_for (id_str (cr_id b_due)) (w_log (check_scheduled_calls tw_ok now0 w_due))
       = [CallAttempt ''+919876543210'' (id_str (cr_id b_due)) ''Hotel'' (Some ''CA01'')]"
    by (simp add: tick1 calls_for_def)
  have e2: "map cr_call_initiated (call_requests (w_db (check_scheduled_calls tw_ok now0 w_due)))
       = [None, Some True]"
    by (simp add: tick1 empty_db_def set_initiated_def b_nophone_def blank_request_def)
  have e3: "calls_for (id_str (cr_id b_due))
        (w_log (check_scheduled_calls tw_ok now0 (check_scheduled_calls tw_ok now0 w_due)))
       = [CallAttempt ''+919876543210'' (id_str (cr_id b_due)) ''Hotel'' (Some ''CA01'')]"
    using e1 by (simp add: check_scheduled_calls_def [of tw_ok now0 "check_scheduled_calls tw_ok now0 w_due"] tick2)
  from u h2 have e4: "w_log (check_scheduled_calls tw_off now0 w_due) = w_log w_due"
    "map cr_call_initiated (call_requests (w_db (check_scheduled_calls tw_off now0 w_due)))
       = map cr_call_initiated (call_requests (w_db w_due))"
    by blast+
  from t h1 h3 w_due_ids_wf b_due_is_due e1 e2 e3 h2 e4 show ?thesis by blast
qed

lemma prev_day_less: "1 \<le> year t \<Longrightarrow> date_of (prev_day t) < date_of t"
  by (auto simp: prev_day_def date_of_def)

lemma year_prev_day: "year t - 1 \<le> year (prev_day t)"
  by (simp add: prev_day_def)

lemma year_minus_days: "year t - k \<le> year (minus_days k t)"
proof (induction k)
  case 0 show ?case by simp
next
  case (Suc k)
  have "year (minus_days k t) - 1 \<le> year (prev_day (minus_days k t))" by (rule year_prev_day)
  with Suc show ?case by simp
qed

lemma minus_days_mono:
  assumes "k < year t"
  shows "date_of (minus_days (Suc k) t) < date_of (minus_days k t)"
proof -
  have "1 \<le> year (minus_days k t)" using year_minus_days [of t k] assms by simp
  then show ?thesis by (simp add: prev_day_less)
qed

lemma minus_days_less:
  assumes "j < k" and "k \<le> year t"
  shows "date_of (minus_days k t) < date_of (minus_days j t)"
  using assms
proof (induction k)
  case 0 then show ?case by simp
next
  case (Suc k)
  have s: "date_of (minus_days (Suc k) t) < date_of (minus_days k t)"
    using minus_days_mono [of k t] Suc.prems by simp
  show ?case
  proof (cases "j = k")
    case True with s show ?thesis by simp
  next
    case False
    with Suc have "date_of (minus_days k t) < date_of (minus_days j t)" by simp
    with s show ?thesis by (rule less_trans)
  qed
qed

lemma date_of_minus_days_cong:
  "date_of s = date_of t \<Longrightarrow> date_of (minus_days k s) = date_of (minus_days k t)"
proof (induction k)
  case 0 then show ?case by simp
next
  case (Suc k)
  then have "date_of (minus_days k s) = date_of (minus_days k t)" by simp
  then show ?case by (auto simp: prev_day_def date_of_def)
qed

lemma date_less_dt_less: "date_of s < date_of t \<Longrightarrow> dt_less s t"
  by (auto simp: date_of_def dt_less_def dt_key_def)

lemma trend_value_map:
  "trend_value (map (\<lambda>k. (k, f k)) ks) d = (if d \<in> set ks then f d else 0)"
  by (induction ks) (auto simp: trend_value_def)

lemma count_list_map_filter: "count_list (map g xs) d = length (filter (\<lambda>x. g x = d) xs)"
  by (induction xs) auto

lemma trend_value_pipeline:
  "trend_value (trend_pipeline match since crs) d =
     length (filter (\<lambda>r. created_date r = d)
               (filter (\<lambda>r. match r \<and> created_on_or_after since r) crs))"
proof -
  let ?keys = "map created_date (filter (\<lambda>r. match r \<and> created_on_or_after since r) crs)"
  have "trend_value (trend_pipeline match since crs) d
          = (if d \<in> set ?keys then count_list ?keys d else 0)"
    by (simp add: trend_pipeline_def Let_def trend_value_map)
  also have "\<dots> = count_list ?keys d"
    by (simp add: count_list_0_iff)
  finally show ?thesis by (simp only: count_list_map_filter)
qed

lemma trend_value_recent:
  assumes "date_of since < d"
  shows "trend_value (trend_pipeline match since crs) d = submissions_on match d crs"
proof -
  have "\<And>r. (created_date r = d \<and> match r \<and> created_on_or_after since r)
          = (match r \<and> (case cr_created_at r of None \<Rightarrow> False | Some t \<Rightarrow> date_of t = d))"
  proof -
    fix r
    show "(created_date r = d \<and> match r \<and> created_on_or_after since r)
          = (match r \<and> (case cr_created_at r of None \<Rightarrow> False | Some t \<Rightarrow> date_of t = d))"
    proof (cases "cr_created_at r")
      case None
      then show ?thesis by (simp add: created_on_or_after_def)
    next
      case (Some t)
      have "date_of t = d \<Longrightarrow> dt_le since t"
        using assms date_less_dt_less [of since t] by (simp add: dt_le_def)
      with Some show ?thesis by (auto simp: created_on_or_after_def created_date_def)
    qed
  qed
  then show ?thesis
    by (simp add: trend_value_pipeline submissions_on_def conj_commute)
qed

lemma trend_pipeline_keys:
  "distinct (map fst (trend_pipeline match since crs))
   \<and> sorted (map fst (trend_pipeline match since crs))
   \<and> (\<forall>x\<in>set (trend_pipeline match since crs). 0 < snd x)"
proof -
  let ?keys = "map created_date (filter (\<lambda>r. match r \<and> created_on_or_after since r) crs)"
  have m: "map fst (trend_pipeline match since crs) = sort (remdups ?keys)"
    by (simp add: trend_pipeline_def Let_def comp_def)
  have "\<forall>k\<in>set ?keys. 0 < count_list ?keys k"
    using count_list_0_iff [of ?keys] by (metis gr0I)
  then have "\<forall>x\<in>set (trend_pipeline match since crs). 0 < snd x"
    by (auto simp: trend_pipeline_def Let_def)
  with m show ?thesis by simp
qed

lemma trend_pipeline_set:
  "(d, c) \<in> set (trend_pipeline match since crs) \<longleftrightarrow>
     c = length (filter (\<lambda>r. created_date r = d)
               (filter (\<lambda>r. match r \<and> created_on_or_after since r) crs)) \<and> 0 < c"
proof -
  let ?keys = "map created_date (filter (\<lambda>r. match r \<and> created_on_or_after since r) crs)"
  have c: "count_list ?keys d
         = length (filter (\<lambda>r. created_date r = d)
               (filter (\<lambda>r. match r \<and> created_on_or_after since r) crs))"
    by (simp only: count_list_map_filter)
  have "(d, c) \<in> set (trend_pipeline match since crs)
          \<longleftrightarrow> d \<in> set ?keys \<and> c = count_list ?keys d"
    by (auto simp: trend_pipeline_def Let_def)
  also have "\<dots> \<longleftrightarrow> c = count_list ?keys d \<and> 0 < c"
    using count_list_0_iff [of ?keys d] by auto
  finally show ?thesis by (simp only: c)
qed

lemma admin_trend_set:
  "(d, c) \<in> set (admin_trend utcnow crs) \<longleftrightarrow>
     c = submissions_since (minus_days 7 (utcnow 0)) d crs \<and> 0 < c"
proof -
  have "\<And>r. (created_date r = d \<and> created_on_or_after (minus_days 7 (utcnow 0)) r)
          = (case cr_created_at r of
               None \<Rightarrow> False
             | Some t \<Rightarrow> dt_le (minus_days 7 (utcnow 0)) t \<and> date_of t = d)"
    by (auto simp: created_date_def created_on_or_after_def split: option.splits)
  then show ?thesis
    by (simp add: admin_trend_def trend_pipeline_set submissions_since_def conj_commute)
qed

text \<open>
  C8 (amended): when the clock readings of the request fall on one calendar day, the
  trend of the client analytics endpoint has the last seven calendar days as labels,
  each exactly once and in order, and the value at each label is the number of the
  client's submissions created on that day, so 0 for a day without submissions. The
  admin endpoints are not zero-filled: their list has an entry for a day exactly when a
  submission created at or after now minus seven days falls on that day, the entry's
  count is the number of those submissions, and the days are listed once each in
  ascending order.
\<close>

theorem trend_zero_filled:
  "((\<forall>k\<le>7. date_of (utcnow k) = date_of (utcnow 0)) \<and> 1970 \<le> year (utcnow 0) \<longrightarrow>
      fst (analytics_trend utcnow cid crs)
           = map (\<lambda>i. date_of (minus_days (6 - i) (utcnow 0))) [0..<7]
       \<and> distinct (fst (analytics_trend utcnow cid crs))
       \<and> length (snd (analytics_trend utcnow cid crs)) = 7
       \<and> (\<forall>i<7. snd (analytics_trend utcnow cid crs) ! i
                   = submissions_on (\<lambda>r. cr_client_id r = cid)
                       (fst (analytics_trend utcnow cid crs) ! i) crs))
   \<and> distinct (map fst (admin_trend utcnow crs))
   \<and> sorted (map fst (admin_trend utcnow crs))
   \<and> (\<forall>d c. (d, c) \<in> set (admin_trend utcnow crs) \<longleftrightarrow>
              c = submissions_since (minus_days 7 (utcnow 0)) d crs \<and> 0 < c)"
proof -
  have adm: "distinct (map fst (admin_trend utcnow crs))
       \<and> sorted (map fst (admin_trend utcnow crs))"
    unfolding admin_trend_def using trend_pipeline_keys by blast
  have client: "fst (analytics_trend utcnow cid crs)
           = map (\<lambda>i. date_of (minus_days (6 - i) (utcnow 0))) [0..<7]
       \<and> distinct (fst (analytics_trend utcnow cid crs))
       \<and> length (snd (analytics_trend utcnow cid crs)) = 7
       \<and> (\<forall>i<7. snd (analytics_trend utcnow cid crs) ! i
                   = submissions_on (\<lambda>r. cr_client_id r = cid)
                       (fst (analytics_trend utcnow cid crs) ! i) crs)"
    if same_day: "\<forall>k\<le>7. date_of (utcnow k) = date_of (utcnow 0)"
      and epoch: "1970 \<le> year (utcnow 0)"
  proof -
    let ?now = "utcnow 0"
    let ?lab = "\<lambda>i. date_of (minus_days (6 - i) ?now)"
    have lab: "\<And>i. i < 7 \<Longrightarrow> date_of (minus_days (6 - i) (utcnow (Suc i))) = ?lab i"
    proof -
      fix i :: nat
      assume "i < 7"
      then have "Suc i \<le> 7" by simp
      with same_day have "date_of (utcnow (Suc i)) = date_of ?now" by blast
      then show "date_of (minus_days (6 - i) (utcnow (Suc i))) = ?lab i"
        by (rule date_of_minus_days_cong)
    qed
    have labels: "fst (analytics_trend utcnow cid crs) = map ?lab [0..<7]"
      unfolding analytics_trend_def Let_def fst_conv
      by (rule map_cong [OF refl]) (simp add: lab)
    have inj: "inj_on ?lab (set [0..<7])"
    proof (rule inj_onI)
      fix i j
      assume i: "i \<in> set [0..<7]" and j: "j \<in> set [0..<7]" and e: "?lab i = ?lab j"
      show "i = j"
      proof (rule ccontr)
        assume "i \<noteq> j"
        then consider "i < j" | "j < i" by linarith
        then show False
        proof cases
          case 1
          with j have "6 - j < 6 - i" "6 - i \<le> year ?now" using epoch by simp_all
          from minus_days_less [OF this] e show False by simp
        next
          case 2
          with i have "6 - i < 6 - j" "6 - j \<le> year ?now" using epoch by simp_all
          from minus_days_less [OF this] e show False by simp
        qed
      qed
    qed
    have dist: "distinct (fst (analytics_trend utcnow cid crs))"
      unfolding labels using inj by (simp only: distinct_map distinct_upt simp_thms)
    have len: "length (snd (analytics_trend utcnow cid crs)) = 7"
      unfolding analytics_trend_def Let_def snd_conv by (simp only: length_map length_upt)
    have vals: "\<forall>i<7. snd (analytics_trend utcnow cid crs) ! i
                     = submissions_on (\<lambda>r. cr_client_id r = cid)
                         (fst (analytics_trend utcnow cid crs) ! i) crs"
    proof (intro allI impI)
      fix i :: nat
      assume i: "i < 7"
      have iu: "i < length [0..<7]" "[0..<7] ! i = i"
        using i by (simp_all del: upt_Suc)
      have l: "fst (analytics_trend utcnow cid crs) ! i = ?lab i"
        unfolding labels using iu by (simp only: nth_map)
      have "6 - i < 7" "7 \<le> year ?now" using epoch by simp_all
      from minus_days_less [OF this] have r: "date_of (minus_days 7 ?now) < ?lab i" .
      have "snd (analytics_trend utcnow cid crs) ! i
              = trend_value (trend_pipeline (\<lambda>r. cr_client_id r = cid) (minus_days 7 ?now) crs)
                  (date_of (minus_days (6 - i) (utcnow (Suc i))))"
        unfolding analytics_trend_def Let_def snd_conv using iu
        by (simp only: nth_map length_map)
      also have "\<dots>
              = trend_value (trend_pipeline (\<lambda>r. cr_client_id r = cid) (minus_days 7 ?now) crs)
                  (?lab i)"
        by (simp only: lab [OF i])
      also have "\<dots> = submissions_on (\<lambda>r. cr_client_id r = cid) (?lab i) crs"
        by (rule trend_value_recent [OF r])
      finally show "snd (analytics_trend utcnow cid crs) ! i
                     = submissions_on (\<lambda>r. cr_client_id r = cid)
                         (fst (analytics_trend utcnow cid crs) ! i) crs"
        using l by simp
    qed
    from labels dist len vals show ?thesis by blast
  qed
  from client adm admin_trend_set show ?thesis by blast
qed

text \<open>
  C8 (as stated in the specification): the trend of the admin aggregation endpoints is
  zero-filled like that of the client endpoint. For a store with a single submission,
  created today, the admin trend has one entry: the six days without submissions do not
  appear at all.
\<close>

theorem admin_trend_not_zero_filled:
  "admin_trend clock0 [r_today] = [((2026, 11, 4), 1)]"
  by code_simp

lemma analytics_example:
  "analytics_trend clock0 (Some acme_id) [r_today] =
     ([(2026, 10, 29), (2026, 10, 30), (2026, 10, 31), (2026, 11, 1), (2026, 11, 2),
       (2026, 11, 3), (2026, 11, 4)],
      [0, 0, 0, 0, 0, 0, 1])"
  by code_simp

theorem trend_zero_filled_witness:
  "list_all (\<lambda>k. date_of (clock0 k) = date_of (clock0 0)) [0..<8] \<and> 1970 \<le> year (clock0 0)
   \<and> analytics_trend clock0 (Some acme_id) [r_today] =
     ([(2026, 10, 29), (2026, 10, 30), (2026, 10, 31), (2026, 11, 1), (2026, 11, 2),
       (2026, 11, 3), (2026, 11, 4)],
      [0, 0, 0, 0, 0, 0, 1])
   \<and> distinct (fst (analytics_trend clock0 (Some acme_id) [r_today]))
   \<and> submissions_on (\<lambda>r. cr_client_id r = Some acme_id) (2026, 11, 4) [r_today] = 1
   \<and> ((2026, 11, 4), 1) \<in> set (admin_trend clock0 [r_today])
   \<and> submissions_since (minus_days 7 (clock0 0)) (2026, 11, 4) [r_today] = 1"
proof -
  have h1: "\<forall>k\<le>7. date_of (clock0 k) = date_of (clock0 0)" by (simp add: clock0_def)
  have h2: "1970 \<le> year (clock0 0)" by (simp add: clock0_def now0_def)
  note t = trend_zero_filled [where utcnow = clock0 and cid = "Some acme_id"
      and crs = "[r_today]"]
  have h1': "list_all (\<lambda>k. date_of (clock0 k) = date_of (clock0 0)) [0..<8]"
    by (simp add: clock0_def list_all_iff)
  have s1: "submissions_on (\<lambda>r. cr_client_id r = Some acme_id) (2026, 11, 4) [r_today] = 1"
    by code_simp
  have s2: "submissions_since (minus_days 7 (clock0 0)) (2026, 11, 4) [r_today] = 1"
    by code_simp
  from t s2 have s3: "((2026, 11, 4), 1) \<in> set (admin_trend clock0 [r_today])"
    by simp
  from t h1 h2 have s4: "distinct (fst (analytics_trend clock0 (Some acme_id) [r_today]))"
    by blast
  from h1' h2 analytics_example s1 s2 s3 s4 show ?thesis by blast
qed

lemma notify_client_sms_db [simp]: "w_db (notify_client_sms tw w c a u p) = w_db w"
  by (simp add: notify_client_sms_def Let_def split: option.splits)

lemma year_fix_year:
  assumes "year_fix now_year (Some t) = Inr ct" and "year t < 2000"
  shows "\<exists>t'. ct = Some t' \<and> t' = t\<lparr>year := (if year t = 26 then 2026 else now_year)\<rparr>"
  using assms
  by (auto simp: year_fix_def replace_year_def split: if_splits sum.splits)

lemma api_submit_accepts:
  assumes "find_one (\<lambda>f. fb_api_key f = Some key) (form_builders (w_db w)) = Some form"
      and "year_fix (year now) (parse_call_time py (data ''preferred_call_time'')) = Inr ct"
  shows "\<exists>r. fst (api_submit py tw now new_id ai w key data)
               = Json 200 [(''status'', ''success''), (''message'', ai),
                           (''call_id'', id_str (OidId new_id)),
                           (''user_name'', py_str (cr_name r)), (''phone'', py_str (cr_phone r)),
                           (''call_initiated'', ''false'')]
           \<and> call_requests (w_db (snd (api_submit py tw now new_id ai w key data)))
               = call_requests (w_db w) @ [r]
           \<and> cr_status r = Some ''PENDING''
           \<and> cr_call_time r = (case ct of None \<Rightarrow> PNone | Some t \<Rightarrow> PDateTime t)
           \<and> cr_name r = Some (if truthy (matched_name form data)
                                then py_str (matched_name form data) else ''Unknown User'')
           \<and> cr_phone r = Some (if truthy (clean_phone (matched_phone form data))
                                 then py_str (clean_phone (matched_phone form data))
                                 else ''No Phone Provided'')"
  using assms
  by (simp add: api_submit_def Let_def blank_request_def py_str_def)

lemma api_submit_raises:
  assumes "find_one (\<lambda>f. fb_api_key f = Some key) (form_builders (w_db w)) = Some form"
      and "year_fix (year now) (parse_call_time py (data ''preferred_call_time'')) = Inl e"
  shows "api_submit py tw now new_id ai w key data
           = (Json 500 [(''error'', ''day is out of range for month''),
                        (''type'', ''ValueError'')], w)"
  using assms by (simp add: api_submit_def Let_def)

lemma find_hotel_form:
  "find_one (\<lambda>f. fb_api_key f = Some ''k1'') (form_builders (w_db w_forms)) = Some hotel_form"
  by (simp add: w_forms_def empty_db_def find_one_def hotel_form_def)


lemma leap_payload_time:
  "parse_call_time py0 (leap_payload ''preferred_call_time'')
     = Some \<lparr>year = 1996, month = 2, day = 29, hour = 10, minute = 0, second = 0,
              microsecond = 0\<rparr>"
  by code_simp

lemma leap_year_fix:
  "year_fix (year now0) (parse_call_time py0 (leap_payload ''preferred_call_time''))
     = Inl ValueError"
  unfolding leap_payload_time
  by (simp add: year_fix_def replace_year_def now0_def days_in_month_def is_leap_def)

text \<open>
  C9: api_submit never rejects a submission with a valid api_key for a missing name or
  phone; a record is inserted and the response reports success (lemma
  \<open>api_submit_accepts\<close>, whenever the year fix returns). The submission \<open>leap_payload\<close> has
  no name and no phone, and a \<open>preferred_call_time\<close> on 29 February 1996: in 2026 the year
  fix raises \<open>ValueError\<close>, the answer is 500 and nothing is inserted.
\<close>

theorem api_submit_leap_day_crash:
  "api_submit py0 tw_ok now0 0 ''ok'' w_forms ''k1'' leap_payload
     = (Json 500 [(''error'', ''day is out of range for month''), (''type'', ''ValueError'')],
        w_forms)"
  by (rule api_submit_raises [where data = leap_payload and py = py0 and now = now0,
        OF find_hotel_form leap_year_fix])










lemma year_26_time:
  "parse_call_time py0 ([''preferred_call_time'' \<mapsto> ''0026-05-01T10:00'']
     ''preferred_call_time'')
     = Some \<lparr>year = 26, month = 5, day = 1, hour = 10, minute = 0, second = 0,
              microsecond = 0\<rparr>"
  by code_simp

lemma api_submit_year_26:
  "map cr_call_time (call_requests (w_db (snd (api_submit py0 tw_ok now0 0 ''ok'' w_forms ''k1''
     [''preferred_call_time'' \<mapsto> ''0026-05-01T10:00'']))))
   = [PDateTime \<lparr>year = 2026, month = 5, day = 1, hour = 10, minute = 0, second = 0,
                  microsecond = 0\<rparr>]"
proof -
  let ?data = "[''preferred_call_time'' \<mapsto> ''0026-05-01T10:00'']"
  have y: "year_fix (year now0) (parse_call_time py0 (?data ''preferred_call_time''))
             = Inr (Some \<lparr>year = 2026, month = 5, day = 1, hour = 10, minute = 0,
                          second = 0, microsecond = 0\<rparr>)"
    unfolding year_26_time
    by (simp add: year_fix_def replace_year_def days_in_month_def)
  obtain r where
    "call_requests (w_db (snd (api_submit py0 tw_ok now0 0 ''ok'' w_forms ''k1'' ?data)))
       = call_requests (w_db w_forms) @ [r]"
    "cr_call_time r = PDateTime \<lparr>year = 2026, month = 5, day = 1, hour = 10, minute = 0,
                               second = 0, microsecond = 0\<rparr>"
    using api_submit_accepts [where data = ?data and py = py0 and now = now0
        and tw = tw_ok and new_id = 0 and ai = "''ok''", OF find_hotel_form y]
    by auto
  then show ?thesis by (simp add: w_forms_def empty_db_def)
qed

text \<open>
  C4: intake stores a parsed \<open>preferred_call_time\<close> of year 26 with year 2026.
  \<open>api_submit\<close> does (lemma \<open>api_submit_year_26\<close>); \<open>submit_form\<close> stores the document with
  the \<open>call_time\<close> the loop wrote, year 26.
\<close>

theorem submit_form_keeps_year_26:
  "map_sum id (\<lambda>doc. map_of doc ''call_time'')
     (submit_form py0 now0 acme_db None ''Hotel'' legacy_form)
   = Inr (Some (PDateTime \<lparr>year = 26, month = 5, day = 1, hour = 10, minute = 0,
                            second = 0, microsecond = 0\<rparr>))"
  by code_simp

lemma submit_form_usual_crash:
  "submit_form py0 now0 acme_db None ''Hotel'' usual_form = Inl RuntimeError"
  by code_simp

text \<open>
  Supporting facts. Every key that \<open>api_key_page\<close> issues with scope SINGLE_APP is bound
  to a non-empty app name; \<open>delete_client\<close> with an id that is no ObjectId changes
  nothing; \<open>api_submit\<close> stores a parsed call time of a year below 2000 with the year
  replaced, whenever the replacement does not raise.
\<close>

lemma api_key_page_post_bound:
  "scoped_keys_bound d \<Longrightarrow> scoped_keys_bound (snd (api_key_page_post token d cid scope app))"
  by (simp add: scoped_keys_bound_def api_key_page_post_def Let_def)

lemma delete_client_invalid_id:
  "ObjectId cid = None \<Longrightarrow> delete_client d cid = (Redirect ''/manage-clients'', d)"
  by (simp add: delete_client_def)

lemma api_submit_year_replaced:
  assumes "find_one (\<lambda>f. fb_api_key f = Some key) (form_builders (w_db w)) = Some form"
      and "parse_call_time py (data ''preferred_call_time'') = Some t"
      and "year t < 2000"
      and "year_fix (year now) (Some t) = Inr ct"
  shows "\<exists>r. call_requests (w_db (snd (api_submit py tw now new_id ai w key data)))
               = call_requests (w_db w) @ [r]
           \<and> cr_call_time r
               = PDateTime (t\<lparr>year := (if year t = 26 then 2026 else year now)\<rparr>)"
proof -
  from year_fix_year [OF assms(4,3)]
  have c: "ct = Some (t\<lparr>year := (if year t = 26 then 2026 else year now)\<rparr>)" by blast
  have y: "year_fix (year now) (parse_call_time py (data ''preferred_call_time'')) = Inr ct"
    using assms(2,4) by simp
  obtain r where
    "call_requests (w_db (snd (api_submit py tw now new_id ai w key data)))
       = call_requests (w_db w) @ [r]"
    and "cr_call_time r = (case ct of None \<Rightarrow> PNone | Some t \<Rightarrow> PDateTime t)"
    using api_submit_accepts [where data = data and py = py and now = now and tw = tw
        and new_id = new_id and ai = ai, OF assms(1) y]
    by blast
  with c show ?thesis by auto
qed

end
